theory Spec2Isabelle
  imports Complex_Main "HOL-Library.AList"
begin

section \<open>Data model\<close>

text \<open>
  The engine works on JavaScript numbers. Coordinates, velocities, radii, times and the
  score are modelled as \<open>real\<close>; ball ids, the id counter and frame numbers, which the
  program only ever increments by one, as \<open>int\<close>. Not-a-number has no counterpart in
  \<open>real\<close>: the one place where the engine can produce it (a division of zero by zero in
  the wall branch of \<open>reflectWall\<close>) is a \<open>None\<close> result of the model.
\<close>

datatype js_value = JNum real | JStr string | JBool bool

text \<open>A ball object, as built by \<open>spawnBall\<close>; \<open>data\<close> is the per-ball key-value bag.\<close>

record ball =
  ball_id :: int
  ball_x :: real
  ball_y :: real
  ball_vx :: real
  ball_vy :: real
  ball_r :: real
  ball_color :: string
  ball_alive :: bool
  ball_data :: "(string \<times> js_value) list"

text \<open>
  The handlers object returned by the rule compiler (\<open>state.program\<close>). A handler receives
  a proxy whose setters write through to the ball, and an exception it raises is caught at
  the call site, so a handler is modelled by what it leaves in the ball (or the two balls)
  it was given. An absent handler is \<open>None\<close>.
\<close>

record program =
  onWallHit :: "(ball \<Rightarrow> ball) option"
  onExit :: "(ball \<Rightarrow> ball) option"
  onBallCollision :: "(ball \<Rightarrow> ball \<Rightarrow> ball \<times> ball) option"

text \<open>The global \<open>state\<close> object.\<close>

record sim_state =
  st_running :: bool
  st_balls :: "ball list"
  st_nextId :: int
  st_t :: real
  st_dt :: real
  st_accumulator :: real
  st_lastMs :: "real option"
  st_doTrail :: bool
  st_doSfx :: bool
  st_doCollide :: bool
  st_score :: real
  st_program :: "program option"
  st_physicsEngine :: string

definition initial_state :: sim_state where
  "initial_state =
     \<lparr>st_running = False, st_balls = [], st_nextId = 1, st_t = 0, st_dt = 1 / 120,
      st_accumulator = 0, st_lastMs = None, st_doTrail = True, st_doSfx = False,
      st_doCollide = False, st_score = 0, st_program = None,
      st_physicsEngine = ''arcadeSimple''\<rparr>"

section \<open>State snapshots\<close>

record snapshot =
  snap_frameNumber :: int
  snap_balls :: "ball list"
  snap_nextId :: int
  snap_t :: real
  snap_score :: real
  snap_physicsEngine :: string
  snap_doCollide :: bool
  snap_timestamp :: real

text \<open>
  The object literal both \<open>createStateSnapshot\<close> and \<open>restoreStateSnapshot\<close> build for each
  ball: every field is read and stored again, the data bag through a shallow copy.
\<close>

definition copy_ball :: "ball \<Rightarrow> ball" where
  "copy_ball b =
     \<lparr>ball_id = ball_id b, ball_x = ball_x b, ball_y = ball_y b, ball_vx = ball_vx b,
      ball_vy = ball_vy b, ball_r = ball_r b, ball_color = ball_color b,
      ball_alive = ball_alive b, ball_data = map (\<lambda>kv. kv) (ball_data b)\<rparr>"

text \<open>\<open>now\<close> is the value of \<open>performance.now()\<close> at the call.\<close>

definition createStateSnapshot :: "int \<Rightarrow> real \<Rightarrow> sim_state \<Rightarrow> snapshot" where
  "createStateSnapshot frameNumber now st =
     \<lparr>snap_frameNumber = frameNumber,
      snap_balls = map copy_ball (st_balls st),
      snap_nextId = st_nextId st,
      snap_t = st_t st,
      snap_score = st_score st,
      snap_physicsEngine = st_physicsEngine st,
      snap_doCollide = st_doCollide st,
      snap_timestamp = now\<rparr>"

datatype restore_result = RFalse | RFrame int

text \<open>
  \<open>restoreStateSnapshot\<close>: a missing snapshot gives \<open>false\<close>; otherwise the six snapshot
  fields are written back and the frame number is returned. The body of the \<open>try\<close> cannot
  throw on a snapshot of this type, and the ball-count display is not part of the state.
\<close>

definition restoreStateSnapshot :: "snapshot option \<Rightarrow> sim_state \<Rightarrow> sim_state \<times> restore_result" where
  "restoreStateSnapshot snapshot st =
     (case snapshot of
        None \<Rightarrow> (st, RFalse)
      | Some s \<Rightarrow>
          (st\<lparr>st_balls := map copy_ball (snap_balls s),
              st_nextId := snap_nextId s,
              st_t := snap_t s,
              st_score := snap_score s,
              st_physicsEngine := snap_physicsEngine s,
              st_doCollide := snap_doCollide s\<rparr>,
           RFrame (snap_frameNumber s)))"

section \<open>History buffer\<close>

text \<open>
  \<open>simulationHistory\<close> is a JavaScript \<open>Map\<close>: an association list in insertion order, in
  which \<open>set\<close> overwrites an existing key in place and appends a new one, which is
  \<^const>\<open>AList.update\<close>. Its \<open>size\<close> is the length of the list.
\<close>

record history =
  simulationHistory :: "(int \<times> snapshot) list"
  maxSavedFrame :: int

definition SNAPSHOT_BUFFER_SIZE :: int where
  "SNAPSHOT_BUFFER_SIZE = 5000"

definition clearSimulationHistory :: history where
  "clearSimulationHistory = \<lparr>simulationHistory = [], maxSavedFrame = - 1\<rparr>"

text \<open>
  \<open>saveSimulationState\<close>; the frame number is \<open>None\<close> for \<open>undefined\<close> or \<open>null\<close>, where
  the function returns at once. The loop that deletes old frames visits every entry of the
  map once and deletes those below \<open>oldestFrameToKeep\<close>.
\<close>

definition saveSimulationState :: "int option \<Rightarrow> real \<Rightarrow> sim_state \<Rightarrow> history \<Rightarrow> history" where
  "saveSimulationState frameNumber now st h =
     (case frameNumber of
        None \<Rightarrow> h
      | Some f \<Rightarrow>
          (let snapshot = createStateSnapshot f now st;
               stored = AList.update f snapshot (simulationHistory h);
               maxF = max (maxSavedFrame h) f
           in if int (length stored) > SNAPSHOT_BUFFER_SIZE
              then (let oldestFrameToKeep = maxF - SNAPSHOT_BUFFER_SIZE + 1
                    in \<lparr>simulationHistory =
                          filter (\<lambda>(frame, _). \<not> frame < oldestFrameToKeep) stored,
                        maxSavedFrame = maxF\<rparr>)
              else \<lparr>simulationHistory = stored, maxSavedFrame = maxF\<rparr>))"

definition restoreSimulationState :: "int \<Rightarrow> history \<Rightarrow> sim_state \<Rightarrow> sim_state \<times> restore_result" where
  "restoreSimulationState targetFrame h st =
     (if targetFrame < 0 then (st, RFalse)
      else
        (case map_of (simulationHistory h) targetFrame of
           None \<Rightarrow> (st, RFalse)
         | Some snapshot \<Rightarrow>
             (case restoreStateSnapshot (Some snapshot) st of
                (st', RFalse) \<Rightarrow> (st', RFalse)
              | (st', RFrame _) \<Rightarrow> (st', RFrame targetFrame))))"

text \<open>
  The stepping driver saves one snapshot per frame before the tick of that frame:
  \<open>save_upto env n\<close> is the history after the saves of frames \<open>0, \<dots>, n\<close> on a cleared
  history, where \<open>env k\<close> gives the clock and the simulation state at the save of frame \<open>k\<close>.
\<close>

primrec save_upto :: "(nat \<Rightarrow> real \<times> sim_state) \<Rightarrow> nat \<Rightarrow> history" where
  "save_upto env 0 =
     saveSimulationState (Some 0) (fst (env 0)) (snd (env 0)) clearSimulationHistory"
| "save_upto env (Suc n) =
     saveSimulationState (Some (int (Suc n))) (fst (env (Suc n))) (snd (env (Suc n)))
       (save_upto env n)"

text \<open>The oldest frame that is still stored after the saves of the frames \<open>0, \<dots>, n\<close>.\<close>

definition oldest_kept :: "nat \<Rightarrow> int" where
  "oldest_kept n = max 0 (int n - SNAPSHOT_BUFFER_SIZE + 1)"

section \<open>Arena, engine configuration and events\<close>

record arena =
  arena_cx :: real
  arena_cy :: real
  arena_r :: real
  arena_gapAngle :: real
  arena_gapWidth :: real

definition default_arena :: arena where
  "default_arena =
     \<lparr>arena_cx = 540, arena_cy = 960, arena_r = min 1080 1920 * 0.44,
      arena_gapAngle = - pi / 2, arena_gapWidth = 0.28\<rparr>"

record arcade_config =
  minReflectionAngle :: real
  maxReflectionAngle :: real
  energyConservation :: bool
  arcade_gravity :: real

record realistic_config =
  realistic_gravity :: real
  elasticity :: real
  airResistance :: real
  minVelocity :: real
  groundLevel :: real

text \<open>
  \<open>physicsConfig\<close>; the \<open>separationOnly\<close> flag of the \<open>arcadeSimple\<close> entry is never read
  and is left out.
\<close>

record physicsConfig =
  cfg_arcade :: arcade_config
  cfg_arcadeSimple :: arcade_config
  cfg_realistic :: realistic_config

definition default_physicsConfig :: physicsConfig where
  "default_physicsConfig =
     \<lparr>cfg_arcade = \<lparr>minReflectionAngle = 15, maxReflectionAngle = 165,
                     energyConservation = True, arcade_gravity = 0\<rparr>,
      cfg_arcadeSimple = \<lparr>minReflectionAngle = 15, maxReflectionAngle = 165,
                           energyConservation = True, arcade_gravity = 0\<rparr>,
      cfg_realistic = \<lparr>realistic_gravity = 980, elasticity = 0.85, airResistance = 0.99,
                        minVelocity = 5, groundLevel = 0.9\<rparr>\<rparr>"

text \<open>The callbacks an operation fired, in order, with the ids of the balls handed over.\<close>

datatype event = EvExit int | EvWallHit int | EvBallCollision int int

text \<open>\<open>state.program?.name\<close>: absent when there is no program or no such handler.\<close>

definition handler :: "(program \<Rightarrow> 'a option) \<Rightarrow> program option \<Rightarrow> 'a option" where
  "handler sel prog = (case prog of None \<Rightarrow> None | Some p \<Rightarrow> sel p)"

text \<open>The guarded call of a one-ball handler: \<open>if (h) { try { h(ballProxy(ball)) } catch \<dots> }\<close>.\<close>

definition call_handler :: "(ball \<Rightarrow> ball) option \<Rightarrow> event \<Rightarrow> ball \<Rightarrow> ball \<times> event list" where
  "call_handler h ev b = (case h of None \<Rightarrow> (b, []) | Some f \<Rightarrow> (f b, [ev]))"

definition call_handler2 ::
  "(ball \<Rightarrow> ball \<Rightarrow> ball \<times> ball) option \<Rightarrow> event \<Rightarrow> ball \<Rightarrow> ball \<Rightarrow> ball \<times> ball \<times> event list" where
  "call_handler2 h ev a b =
     (case h of None \<Rightarrow> (a, b, []) | Some f \<Rightarrow> (fst (f a b), snd (f a b), [ev]))"

section \<open>Numeric library functions\<close>

text \<open>\<open>Math.hypot\<close> and \<open>Math.atan2\<close> on real arguments.\<close>

definition hypot :: "real \<Rightarrow> real \<Rightarrow> real" where
  "hypot a b = sqrt (a\<^sup>2 + b\<^sup>2)"

definition atan2 :: "real \<Rightarrow> real \<Rightarrow> real" where
  "atan2 y x =
     (if 0 < x then arctan (y / x)
      else if x < 0 then (if 0 \<le> y then arctan (y / x) + pi else arctan (y / x) - pi)
      else if 0 < y then pi / 2
      else if y < 0 then - pi / 2
      else 0)"

section \<open>Wall contact\<close>

text \<open>
  What \<open>reflectWall\<close> leaves behind: the ball, the returned flag and the callbacks fired.
\<close>

record wall_result =
  wr_ball :: ball
  wr_contact :: bool
  wr_events :: "event list"

text \<open>The two loops that bring the reflection angle into the range from -180 to 180.\<close>

function normalize_above :: "real \<Rightarrow> real" where
  "normalize_above a = (if 180 < a then normalize_above (a - 360) else a)"
  by pat_completeness auto
termination
proof (relation "measure (\<lambda>a. nat \<lceil>a\<rceil>)")
  show "wf (measure (\<lambda>a::real. nat \<lceil>a\<rceil>))" by simp
next
  fix a :: real
  assume "180 < a"
  then have "\<lceil>a - 360\<rceil> < \<lceil>a\<rceil>" "0 < \<lceil>a\<rceil>" by linarith+
  then show "(a - 360, a) \<in> measure (\<lambda>a. nat \<lceil>a\<rceil>)" by simp
qed

function normalize_below :: "real \<Rightarrow> real" where
  "normalize_below a = (if a < - 180 then normalize_below (a + 360) else a)"
  by pat_completeness auto
termination
proof (relation "measure (\<lambda>a. nat \<lceil>- a\<rceil>)")
  show "wf (measure (\<lambda>a::real. nat \<lceil>- a\<rceil>))" by simp
next
  fix a :: real
  assume "a < - 180"
  then have "\<lceil>- (a + 360)\<rceil> < \<lceil>- a\<rceil>" "0 < \<lceil>- a\<rceil>" by linarith+
  then show "(a + 360, a) \<in> measure (\<lambda>a. nat \<lceil>- a\<rceil>)" by simp
qed

declare normalize_above.simps [simp del]
declare normalize_below.simps [simp del]

text \<open>
  The angle constraint of the two arcade engines, from the natural reflection
  \<open>(newVx, newVy)\<close> to the velocity that is stored: the angle is the one \<open>atan2\<close> gives
  for the reflected velocity, in degrees.
\<close>

definition constrain_reflection :: "arcade_config \<Rightarrow> real \<Rightarrow> real \<Rightarrow> real \<times> real" where
  "constrain_reflection config newVx newVy =
     (let reflectionAngleDeg = normalize_below (normalize_above ((atan2 newVy newVx * 180) / pi));
          speed = hypot newVx newVy;
          constrained1 =
            (if reflectionAngleDeg > maxReflectionAngle config then maxReflectionAngle config
             else if reflectionAngleDeg < - maxReflectionAngle config
               then - maxReflectionAngle config
             else reflectionAngleDeg);
          constrainedAngleDeg =
            (if \<bar>constrained1\<bar> < minReflectionAngle config
             then (if constrained1 \<ge> 0 then minReflectionAngle config
                   else - minReflectionAngle config)
             else constrained1)
      in if \<bar>constrainedAngleDeg - reflectionAngleDeg\<bar> > 0.1
         then (let constrainedAngleRad = (constrainedAngleDeg * pi) / 180
               in (cos constrainedAngleRad * speed, sin constrainedAngleRad * speed))
         else (newVx, newVy))"

text \<open>
  The first test of \<open>reflectWall\<close>: there is a contact unless the ball, with its radius,
  is within the arena radius.
\<close>

definition wall_contact :: "arena \<Rightarrow> ball \<Rightarrow> bool" where
  "wall_contact ar ball =
     (\<not> hypot (ball_x ball - arena_cx ar) (ball_y ball - arena_cy ar) + ball_r ball \<le> arena_r ar)"

text \<open>
  The test that sends a contact through the gap: the angular position of the ball, taken
  relative to the gap angle and wrapped by \<open>atan2 (sin _) (cos _)\<close>, is within half the gap
  width.
\<close>

definition gap_offset :: "arena \<Rightarrow> ball \<Rightarrow> real" where
  "gap_offset ar ball =
     (let dx = ball_x ball - arena_cx ar;
          dy = ball_y ball - arena_cy ar;
          ang = atan2 dy dx
      in atan2 (sin (ang - arena_gapAngle ar)) (cos (ang - arena_gapAngle ar)))"

definition in_gap :: "arena \<Rightarrow> ball \<Rightarrow> bool" where
  "in_gap ar ball = (\<bar>gap_offset ar ball\<bar> < arena_gapWidth ar / 2)"

text \<open>The gap branch: the exit handler, then the ball is put at the arena centre.\<close>

definition gap_exit :: "arena \<Rightarrow> program option \<Rightarrow> ball \<Rightarrow> wall_result" where
  "gap_exit ar prog ball =
     (let (ball1, evs) = call_handler (handler onExit prog) (EvExit (ball_id ball)) ball
      in \<lparr>wr_ball = ball1\<lparr>ball_x := arena_cx ar, ball_y := arena_cy ar\<rparr>,
          wr_contact = True, wr_events = evs\<rparr>)"

text \<open>
  \<open>ArcadePhysics.reflectWall\<close> and \<open>ArcadeSimplePhysics.reflectWall\<close> have the same body and
  differ in the configuration entry they read, which is the first argument here. With the
  ball centre on the arena centre the source divides zero by zero in the wall branch: the
  result is \<open>None\<close>.
\<close>

definition arcade_reflectWall ::
  "arcade_config \<Rightarrow> arena \<Rightarrow> program option \<Rightarrow> ball \<Rightarrow> wall_result option" where
  "arcade_reflectWall config ar prog ball =
     (let dx = ball_x ball - arena_cx ar;
          dy = ball_y ball - arena_cy ar;
          dist = hypot dx dy
      in if dist + ball_r ball \<le> arena_r ar
         then Some \<lparr>wr_ball = ball, wr_contact = False, wr_events = []\<rparr>
         else if in_gap ar ball then Some (gap_exit ar prog ball)
         else if dist = 0 then None
         else
           (let nx = dx / dist;
                ny = dy / dist;
                overlap = dist + ball_r ball - arena_r ar;
                ball1 = ball\<lparr>ball_x := ball_x ball - nx * overlap,
                              ball_y := ball_y ball - ny * overlap\<rparr>;
                vdotn = ball_vx ball1 * nx + ball_vy ball1 * ny;
                newVx = ball_vx ball1 - 2 * vdotn * nx;
                newVy = ball_vy ball1 - 2 * vdotn * ny;
                (newVx', newVy') = constrain_reflection config newVx newVy;
                ball2 = ball1\<lparr>ball_vx := newVx', ball_vy := newVy'\<rparr>;
                (ball3, evs) =
                  call_handler (handler onWallHit prog) (EvWallHit (ball_id ball)) ball2
            in Some \<lparr>wr_ball = ball3, wr_contact = True, wr_events = evs\<rparr>))"

definition ArcadePhysics_reflectWall ::
  "physicsConfig \<Rightarrow> arena \<Rightarrow> program option \<Rightarrow> ball \<Rightarrow> wall_result option" where
  "ArcadePhysics_reflectWall pc = arcade_reflectWall (cfg_arcade pc)"

definition ArcadeSimplePhysics_reflectWall ::
  "physicsConfig \<Rightarrow> arena \<Rightarrow> program option \<Rightarrow> ball \<Rightarrow> wall_result option" where
  "ArcadeSimplePhysics_reflectWall pc = arcade_reflectWall (cfg_arcadeSimple pc)"

definition RealisticPhysics_reflectWall ::
  "physicsConfig \<Rightarrow> arena \<Rightarrow> program option \<Rightarrow> ball \<Rightarrow> wall_result option" where
  "RealisticPhysics_reflectWall pc ar prog ball =
     (let dx = ball_x ball - arena_cx ar;
          dy = ball_y ball - arena_cy ar;
          dist = hypot dx dy
      in if dist + ball_r ball \<le> arena_r ar
         then Some \<lparr>wr_ball = ball, wr_contact = False, wr_events = []\<rparr>
         else if in_gap ar ball then Some (gap_exit ar prog ball)
         else if dist = 0 then None
         else
           (let nx = dx / dist;
                ny = dy / dist;
                overlap = dist + ball_r ball - arena_r ar;
                ball1 = ball\<lparr>ball_x := ball_x ball - nx * overlap,
                              ball_y := ball_y ball - ny * overlap\<rparr>;
                vdotn = ball_vx ball1 * nx + ball_vy ball1 * ny;
                ball2 = ball1\<lparr>ball_vx := ball_vx ball1 - 2 * vdotn * nx,
                               ball_vy := ball_vy ball1 - 2 * vdotn * ny\<rparr>;
                config = cfg_realistic pc;
                ball3 = ball2\<lparr>ball_vx := ball_vx ball2 * elasticity config,
                               ball_vy := ball_vy ball2 * elasticity config\<rparr>;
                (ball4, evs) =
                  call_handler (handler onWallHit prog) (EvWallHit (ball_id ball)) ball3
            in Some \<lparr>wr_ball = ball4, wr_contact = True, wr_events = evs\<rparr>))"

text \<open>\<open>getCurrentEngine\<close>, by the engine name in the state; an unknown name is Arcade.\<close>

definition reflectWall ::
  "string \<Rightarrow> physicsConfig \<Rightarrow> arena \<Rightarrow> program option \<Rightarrow> ball \<Rightarrow> wall_result option" where
  "reflectWall physicsEngine =
     (if physicsEngine = ''realistic'' then RealisticPhysics_reflectWall
      else if physicsEngine = ''arcadeSimple'' then ArcadeSimplePhysics_reflectWall
      else ArcadePhysics_reflectWall)"

text \<open>
  The angle between two plane vectors in degrees, between 0 and 180: the deviation of an
  outgoing velocity from the inward wall normal is measured with it.
\<close>

definition angle_between_deg :: "real \<Rightarrow> real \<Rightarrow> real \<Rightarrow> real \<Rightarrow> real" where
  "angle_between_deg ux uy wx wy =
     arccos ((ux * wx + uy * wy) / (hypot ux uy * hypot wx wy)) * 180 / pi"

section \<open>The earlier Arcade wall reflection\<close>

text \<open>
  The repository also keeps the engine file from before the snapshot system was added. Its
  \<open>ArcadePhysics.reflectWall\<close> differs from the current one in the angle constraint only:
  it takes the angle of the reflected velocity relative to \<open>wallAngle\<close>, the direction of
  the contact normal \<open>(nx, ny)\<close>, in radians.
\<close>

definition constrain_reflection_v1 ::
  "arcade_config \<Rightarrow> real \<Rightarrow> real \<Rightarrow> real \<Rightarrow> real \<Rightarrow> real \<times> real" where
  "constrain_reflection_v1 config nx ny newVx newVy =
     (let wallAngle = atan2 ny nx;
          reflectionAngle = atan2 newVy newVx;
          minAngleRad = (minReflectionAngle config * pi) / 180;
          maxAngleRad = (maxReflectionAngle config * pi) / 180;
          angleFromNormal0 = \<bar>reflectionAngle - wallAngle\<bar>;
          angleFromNormal =
            (if angleFromNormal0 > pi then 2 * pi - angleFromNormal0 else angleFromNormal0);
          speed = hypot newVx newVy;
          adjustedAngle =
            (if angleFromNormal < minAngleRad
             then wallAngle + sgn (reflectionAngle - wallAngle) * minAngleRad
             else if angleFromNormal > maxAngleRad
             then wallAngle + sgn (reflectionAngle - wallAngle) * maxAngleRad
             else reflectionAngle)
      in if adjustedAngle \<noteq> reflectionAngle
         then (cos adjustedAngle * speed, sin adjustedAngle * speed)
         else (newVx, newVy))"

definition ArcadePhysics_reflectWall_v1 ::
  "physicsConfig \<Rightarrow> arena \<Rightarrow> program option \<Rightarrow> ball \<Rightarrow> wall_result option" where
  "ArcadePhysics_reflectWall_v1 pc ar prog ball =
     (let dx = ball_x ball - arena_cx ar;
          dy = ball_y ball - arena_cy ar;
          dist = hypot dx dy
      in if dist + ball_r ball \<le> arena_r ar
         then Some \<lparr>wr_ball = ball, wr_contact = False, wr_events = []\<rparr>
         else if in_gap ar ball then Some (gap_exit ar prog ball)
         else if dist = 0 then None
         else
           (let nx = dx / dist;
                ny = dy / dist;
                overlap = dist + ball_r ball - arena_r ar;
                ball1 = ball\<lparr>ball_x := ball_x ball - nx * overlap,
                              ball_y := ball_y ball - ny * overlap\<rparr>;
                vdotn = ball_vx ball1 * nx + ball_vy ball1 * ny;
                newVx = ball_vx ball1 - 2 * vdotn * nx;
                newVy = ball_vy ball1 - 2 * vdotn * ny;
                (newVx', newVy') = constrain_reflection_v1 (cfg_arcade pc) nx ny newVx newVy;
                ball2 = ball1\<lparr>ball_vx := newVx', ball_vy := newVy'\<rparr>;
                (ball3, evs) =
                  call_handler (handler onWallHit prog) (EvWallHit (ball_id ball)) ball2
            in Some \<lparr>wr_ball = ball3, wr_contact = True, wr_events = evs\<rparr>))"

section \<open>Ball-ball collisions\<close>

text \<open>
  The body of the inner loop of \<open>handleCollisions\<close> for two live balls \<open>a\<close> and \<open>b\<close>, in
  the phases the source marks. The contact normal is computed once, from the positions
  before the separation, and is used by the velocity response as well.
\<close>

definition center_distance :: "ball \<Rightarrow> ball \<Rightarrow> real" where
  "center_distance a b = hypot (ball_x b - ball_x a) (ball_y b - ball_y a)"

text \<open>The condition under which a pair is resolved.\<close>

definition colliding :: "ball \<Rightarrow> ball \<Rightarrow> bool" where
  "colliding a b =
     (let dx = ball_x b - ball_x a;
          dy = ball_y b - ball_y a;
          dist = hypot dx dy;
          minD = ball_r a + ball_r b
      in dist < minD \<and> dist > 0.0001)"

definition contact_normal :: "ball \<Rightarrow> ball \<Rightarrow> real \<times> real" where
  "contact_normal a b =
     (let dx = ball_x b - ball_x a;
          dy = ball_y b - ball_y a;
          dist = hypot dx dy
      in (dx / dist, dy / dist))"

text \<open>Phase 1, first half: the two balls are pushed apart along the normal.\<close>

definition separate_pair :: "ball \<Rightarrow> ball \<Rightarrow> ball \<times> ball" where
  "separate_pair a b =
     (let dx = ball_x b - ball_x a;
          dy = ball_y b - ball_y a;
          dist = hypot dx dy;
          minD = ball_r a + ball_r b;
          nx = dx / dist;
          ny = dy / dist;
          overlap = minD - dist;
          totalR = ball_r a + ball_r b;
          aRatio = ball_r a / totalR;
          bRatio = ball_r b / totalR
      in (a\<lparr>ball_x := ball_x a - nx * overlap * bRatio,
             ball_y := ball_y a - ny * overlap * bRatio\<rparr>,
          b\<lparr>ball_x := ball_x b + nx * overlap * aRatio,
             ball_y := ball_y b + ny * overlap * aRatio\<rparr>))"

text \<open>
  Phase 1, second half: the exchange of the normal velocity components (scaled by the
  elasticity for the realistic engine), or, for \<open>arcadeSimple\<close>, the reflection of each
  velocity about the normal followed by the rescaling to the speed before.
\<close>

definition velocity_response ::
  "physicsConfig \<Rightarrow> string \<Rightarrow> real \<Rightarrow> real \<Rightarrow> ball \<Rightarrow> ball \<Rightarrow> ball \<times> ball" where
  "velocity_response pc physicsEngine nx ny a b =
     (if physicsEngine \<noteq> ''arcadeSimple'' then
        (let va = ball_vx a * nx + ball_vy a * ny;
             vb = ball_vx b * nx + ball_vy b * ny;
             dv = vb - va;
             a1 = a\<lparr>ball_vx := ball_vx a + dv * nx, ball_vy := ball_vy a + dv * ny\<rparr>;
             b1 = b\<lparr>ball_vx := ball_vx b - dv * nx, ball_vy := ball_vy b - dv * ny\<rparr>
         in if physicsEngine = ''realistic'' then
              (let e = elasticity (cfg_realistic pc)
               in (a1\<lparr>ball_vx := ball_vx a1 * e, ball_vy := ball_vy a1 * e\<rparr>,
                   b1\<lparr>ball_vx := ball_vx b1 * e, ball_vy := ball_vy b1 * e\<rparr>))
            else (a1, b1))
      else
        (let originalSpeedA = hypot (ball_vx a) (ball_vy a);
             originalSpeedB = hypot (ball_vx b) (ball_vy b);
             vaNormal = ball_vx a * nx + ball_vy a * ny;
             vbNormal = ball_vx b * nx + ball_vy b * ny;
             a1 = a\<lparr>ball_vx := ball_vx a - 2 * vaNormal * nx,
                     ball_vy := ball_vy a - 2 * vaNormal * ny\<rparr>;
             b1 = b\<lparr>ball_vx := ball_vx b - 2 * vbNormal * nx,
                     ball_vy := ball_vy b - 2 * vbNormal * ny\<rparr>;
             newSpeedA = hypot (ball_vx a1) (ball_vy a1);
             newSpeedB = hypot (ball_vx b1) (ball_vy b1);
             a2 = (if newSpeedA > 0
                   then (let scaleA = originalSpeedA / newSpeedA
                         in a1\<lparr>ball_vx := ball_vx a1 * scaleA, ball_vy := ball_vy a1 * scaleA\<rparr>)
                   else a1);
             b2 = (if newSpeedB > 0
                   then (let scaleB = originalSpeedB / newSpeedB
                         in b1\<lparr>ball_vx := ball_vx b1 * scaleB, ball_vy := ball_vy b1 * scaleB\<rparr>)
                   else b1)
         in (a2, b2)))"

definition physical_response :: "physicsConfig \<Rightarrow> string \<Rightarrow> ball \<Rightarrow> ball \<Rightarrow> ball \<times> ball" where
  "physical_response pc physicsEngine a b =
     (let (nx, ny) = contact_normal a b;
          (a1, b1) = separate_pair a b
      in velocity_response pc physicsEngine nx ny a1 b1)"

text \<open>
  Phase 3, entered when the handler changed a radius: a second separation with the new
  radii and a fixed push along the new normal.
\<close>

definition radius_change_response :: "string \<Rightarrow> ball \<Rightarrow> ball \<Rightarrow> ball \<times> ball" where
  "radius_change_response physicsEngine a b =
     (let newDx = ball_x b - ball_x a;
          newDy = ball_y b - ball_y a;
          newDist = hypot newDx newDy;
          newMinD = ball_r a + ball_r b
      in if newDist < newMinD \<and> newDist > 0.0001 then
           (let newNx = newDx / newDist;
                newNy = newDy / newDist;
                additionalOverlap = newMinD - newDist;
                newTotalR = ball_r a + ball_r b;
                newARatio = ball_r a / newTotalR;
                newBRatio = ball_r b / newTotalR;
                separationVelocity = (if physicsEngine = ''arcadeSimple'' then 10 else 20)
            in (a\<lparr>ball_x := ball_x a - newNx * additionalOverlap * newBRatio,
                   ball_y := ball_y a - newNy * additionalOverlap * newBRatio,
                   ball_vx := ball_vx a - newNx * separationVelocity * newBRatio,
                   ball_vy := ball_vy a - newNy * separationVelocity * newBRatio\<rparr>,
                b\<lparr>ball_x := ball_x b + newNx * additionalOverlap * newARatio,
                   ball_y := ball_y b + newNy * additionalOverlap * newARatio,
                   ball_vx := ball_vx b + newNx * separationVelocity * newARatio,
                   ball_vy := ball_vy b + newNy * separationVelocity * newARatio\<rparr>))
         else (a, b))"

text \<open>
  The result for one pair: the two balls, the callbacks fired, and whether the pair was
  entered into \<open>processedPairs\<close>.
\<close>

record pair_result =
  pr_a :: ball
  pr_b :: ball
  pr_events :: "event list"
  pr_processed :: bool

definition collide_pair ::
  "physicsConfig \<Rightarrow> string \<Rightarrow> program option \<Rightarrow> ball \<Rightarrow> ball \<Rightarrow> pair_result" where
  "collide_pair pc physicsEngine prog a b =
     (let dx = ball_x b - ball_x a;
          dy = ball_y b - ball_y a;
          dist = hypot dx dy;
          minD = ball_r a + ball_r b
      in if dist < minD \<and> dist > 0.0001 then
           (let (a1, b1) = physical_response pc physicsEngine a b;
                originalARadius = ball_r a1;
                originalBRadius = ball_r b1;
                (a2, b2, evs) =
                  call_handler2 (handler onBallCollision prog)
                    (EvBallCollision (ball_id a) (ball_id b)) a1 b1;
                (a3, b3) =
                  (if ball_r a2 \<noteq> originalARadius \<or> ball_r b2 \<noteq> originalBRadius
                   then radius_change_response physicsEngine a2 b2
                   else (a2, b2))
            in \<lparr>pr_a = a3, pr_b = b3, pr_events = evs, pr_processed = True\<rparr>)
         else \<lparr>pr_a = a, pr_b = b, pr_events = [], pr_processed = False\<rparr>)"

text \<open>
  \<open>handleCollisions\<close>: the ball array is a store addressed by index, \<open>processedPairs\<close> a
  list of id pairs. The outer loop tests the liveness of \<open>a\<close> once, the inner loop that of
  \<open>b\<close> at every pair.
\<close>

record collision_state =
  cs_balls :: "ball list"
  cs_processedPairs :: "(int \<times> int) list"
  cs_events :: "event list"

definition collision_step ::
  "physicsConfig \<Rightarrow> string \<Rightarrow> program option \<Rightarrow> nat \<Rightarrow> collision_state \<Rightarrow> nat \<Rightarrow> collision_state" where
  "collision_step pc physicsEngine prog i cs j =
     (let a = cs_balls cs ! i;
          b = cs_balls cs ! j
      in if \<not> ball_alive b then cs
         else
           (let pairId = (min (ball_id a) (ball_id b), max (ball_id a) (ball_id b))
            in if pairId \<in> set (cs_processedPairs cs) then cs
               else
                 (let res = collide_pair pc physicsEngine prog a b
                  in \<lparr>cs_balls = (cs_balls cs)[i := pr_a res, j := pr_b res],
                      cs_processedPairs =
                        (if pr_processed res then cs_processedPairs cs @ [pairId]
                         else cs_processedPairs cs),
                      cs_events = cs_events cs @ pr_events res\<rparr>)))"

definition handleCollisions ::
  "physicsConfig \<Rightarrow> string \<Rightarrow> program option \<Rightarrow> ball list \<Rightarrow> collision_state" where
  "handleCollisions pc physicsEngine prog balls =
     (let n = length balls
      in foldl
           (\<lambda>cs i.
              if \<not> ball_alive (cs_balls cs ! i) then cs
              else foldl (collision_step pc physicsEngine prog i) cs [Suc i ..< n])
           \<lparr>cs_balls = balls, cs_processedPairs = [], cs_events = []\<rparr>
           [0 ..< n])"

section \<open>Example inputs\<close>

text \<open>A live ball with an empty data bag, as \<open>spawnBall\<close> makes it from the given fields.\<close>

definition example_ball :: "int \<Rightarrow> real \<Rightarrow> real \<Rightarrow> real \<Rightarrow> real \<Rightarrow> real \<Rightarrow> ball" where
  "example_ball i x y vx vy r =
     \<lparr>ball_id = i, ball_x = x, ball_y = y, ball_vx = vx, ball_vy = vy, ball_r = r,
      ball_color = ''#7aa2f7'', ball_alive = True, ball_data = []\<rparr>"

section \<open>Snapshot round trip\<close>

lemma copy_ball_id: "copy_ball b = b"
  by (simp add: copy_ball_def)

lemma map_copy_ball: "map copy_ball bs = bs"
  by (induction bs) (simp_all add: copy_ball_id)

text \<open>
  C1. Restoring the snapshot that \<open>createStateSnapshot\<close> made of a state \<open>st\<close> at frame \<open>F\<close>
  succeeds with frame \<open>F\<close> and, whatever the state has become in between (\<open>cur\<close>), leaves
  the ball list (every ball with its id, x, y, vx, vy, r, color, alive flag and data),
  nextId, t, score, the physics variant and the collision flag equal to their values in
  \<open>st\<close>; restoring into \<open>st\<close> itself gives back \<open>st\<close>.
\<close>

theorem snapshot_round_trip:
  "snd (restoreStateSnapshot (Some (createStateSnapshot F now st)) cur) = RFrame F
   \<and> st_balls (fst (restoreStateSnapshot (Some (createStateSnapshot F now st)) cur)) = st_balls st
   \<and> st_nextId (fst (restoreStateSnapshot (Some (createStateSnapshot F now st)) cur)) = st_nextId st
   \<and> st_t (fst (restoreStateSnapshot (Some (createStateSnapshot F now st)) cur)) = st_t st
   \<and> st_score (fst (restoreStateSnapshot (Some (createStateSnapshot F now st)) cur)) = st_score st
   \<and> st_physicsEngine (fst (restoreStateSnapshot (Some (createStateSnapshot F now st)) cur))
       = st_physicsEngine st
   \<and> st_doCollide (fst (restoreStateSnapshot (Some (createStateSnapshot F now st)) cur))
       = st_doCollide st
   \<and> fst (restoreStateSnapshot (Some (createStateSnapshot F now st)) st) = st"
  by (simp add: restoreStateSnapshot_def createStateSnapshot_def map_copy_ball)

section \<open>Restoring a frame that is not stored\<close>

text \<open>
  C9. For a frame number that is negative or has no snapshot in the history,
  \<open>restoreSimulationState\<close> returns \<open>false\<close> and the simulation state is the one it was
  called with.
\<close>

theorem restore_miss_unchanged:
  assumes "f < 0 \<or> map_of (simulationHistory h) f = None"
  shows "restoreSimulationState f h st = (st, RFalse)"
  using assms by (auto simp: restoreSimulationState_def)

theorem restore_miss_unchanged_witness:
  "(7 < (0::int) \<or> map_of (simulationHistory (save_upto (\<lambda>_. (0, initial_state)) 0)) 7 = None)
   \<and> restoreSimulationState 7 (save_upto (\<lambda>_. (0, initial_state)) 0) initial_state
       = (initial_state, RFalse)
   \<and> restoreSimulationState (- 1) (save_upto (\<lambda>_. (0, initial_state)) 0) initial_state
       = (initial_state, RFalse)"
proof -
  have miss: "map_of (simulationHistory (save_upto (\<lambda>_. (0, initial_state)) 0)) 7 = None"
    by (simp add: saveSimulationState_def clearSimulationHistory_def SNAPSHOT_BUFFER_SIZE_def)
  show ?thesis
    using miss
      restore_miss_unchanged [of 7 "save_upto (\<lambda>_. (0, initial_state)) 0" initial_state]
      restore_miss_unchanged [of "- 1" "save_upto (\<lambda>_. (0, initial_state)) 0" initial_state]
    by simp
qed

section \<open>History eviction\<close>

lemma keys_filter_frames:
  "fst ` {x \<in> set al. case x of (frame, _) \<Rightarrow> P frame} = {k \<in> fst ` set al. P k}"
  by force

lemma save_keys:
  "fst ` set (simulationHistory (saveSimulationState (Some f) now st h)) =
     (let ks = insert f (fst ` set (simulationHistory h)); m = max (maxSavedFrame h) f
      in if int (length (AList.update f (createStateSnapshot f now st) (simulationHistory h)))
              > SNAPSHOT_BUFFER_SIZE
         then {k \<in> ks. \<not> k < m - SNAPSHOT_BUFFER_SIZE + 1} else ks)"
  by (simp add: saveSimulationState_def Let_def keys_filter_frames AList.dom_update)

lemma save_distinct:
  "distinct (map fst (simulationHistory h)) \<Longrightarrow>
   distinct (map fst (simulationHistory (saveSimulationState (Some f) now st h)))"
  by (simp add: saveSimulationState_def Let_def distinct_map_filter AList.distinct_update)

lemma save_max:
  "maxSavedFrame (saveSimulationState (Some f) now st h) = max (maxSavedFrame h) f"
  by (simp add: saveSimulationState_def Let_def)

lemma length_update_fresh:
  "f \<notin> fst ` set al \<Longrightarrow> distinct (map fst al) \<Longrightarrow>
   int (length (AList.update f v al)) = int (card (fst ` set al)) + 1"
proof -
  assume a: "f \<notin> fst ` set al" and d: "distinct (map fst al)"
  have "length (AList.update f v al) = length (map fst (AList.update f v al))" by simp
  also have "\<dots> = length (map fst al @ [f])" using a by (simp only: AList.update_keys) simp
  also have "\<dots> = card (set (map fst al)) + 1" using distinct_card [OF d] by simp
  finally show ?thesis by simp
qed

lemma save_upto_inv:
  "distinct (map fst (simulationHistory (save_upto env n)))
   \<and> fst ` set (simulationHistory (save_upto env n)) = {oldest_kept n .. int n}
   \<and> maxSavedFrame (save_upto env n) = int n"
proof (induction n)
  case 0
  show ?case
    by (simp add: saveSimulationState_def clearSimulationHistory_def SNAPSHOT_BUFFER_SIZE_def
        oldest_kept_def)
next
  case (Suc n)
  let ?h = "save_upto env n"
  from Suc have d: "distinct (map fst (simulationHistory ?h))"
    and ks: "fst ` set (simulationHistory ?h) = {oldest_kept n .. int n}"
    and m: "maxSavedFrame ?h = int n" by simp_all
  have fresh: "int (Suc n) \<notin> fst ` set (simulationHistory ?h)" using ks by simp
  have len: "int (length (AList.update (int (Suc n)) v (simulationHistory ?h)))
      = int n - oldest_kept n + 2" for v
    using length_update_fresh [OF fresh d, of v] ks
    by (simp add: oldest_kept_def SNAPSHOT_BUFFER_SIZE_def)
  have "fst ` set (simulationHistory (save_upto env (Suc n))) = {oldest_kept (Suc n) .. int (Suc n)}"
    unfolding save_upto.simps save_keys Let_def len ks m
    by (auto simp: oldest_kept_def SNAPSHOT_BUFFER_SIZE_def)
  moreover have "distinct (map fst (simulationHistory (save_upto env (Suc n))))"
    using d by (simp add: save_distinct)
  moreover have "maxSavedFrame (save_upto env (Suc n)) = int (Suc n)"
    using m by (simp add: save_max)
  ultimately show ?case by blast
qed

lemma save_lookup_new:
  assumes "maxSavedFrame h \<le> f"
  shows "map_of (simulationHistory (saveSimulationState (Some f) now st h)) f
           = Some (createStateSnapshot f now st)"
proof -
  let ?s = "createStateSnapshot f now st"
  let ?al = "AList.update f ?s (simulationHistory h)"
  have stored: "map_of ?al f = Some ?s"
    by (simp add: AList.update_conv')
  have keep: "\<not> f < max (maxSavedFrame h) f - SNAPSHOT_BUFFER_SIZE + 1"
    using assms by (simp add: SNAPSHOT_BUFFER_SIZE_def)
  have "map_of (filter (\<lambda>(frame, _). \<not> frame < max (maxSavedFrame h) f - SNAPSHOT_BUFFER_SIZE + 1) ?al) f
          = Some ?s"
    using map_of_filter_in [OF stored, of "\<lambda>frame _. \<not> frame < max (maxSavedFrame h) f - SNAPSHOT_BUFFER_SIZE + 1"] keep
    by simp
  then show ?thesis
    using stored by (simp add: saveSimulationState_def Let_def)
qed

lemma save_upto_last:
  "map_of (simulationHistory (save_upto env n)) (int n)
     = Some (createStateSnapshot (int n) (fst (env n)) (snd (env n)))"
proof (cases n)
  case 0
  then show ?thesis
    using save_lookup_new [of clearSimulationHistory 0 "fst (env 0)" "snd (env 0)"]
    by (simp add: clearSimulationHistory_def)
next
  case (Suc m)
  have "maxSavedFrame (save_upto env m) \<le> int (Suc m)"
    using save_upto_inv [of env m] by simp
  then show ?thesis
    using Suc save_lookup_new [of "save_upto env m" "int (Suc m)"] by simp
qed

lemma history_round_trip:
  assumes "0 \<le> F" and "maxSavedFrame h \<le> F"
  shows "restoreSimulationState F (saveSimulationState (Some F) now st h) cur
           = (fst (restoreStateSnapshot (Some (createStateSnapshot F now st)) cur), RFrame F)"
  using assms
  by (simp add: restoreSimulationState_def save_lookup_new restoreStateSnapshot_def)

lemma save_evicts_only_old:
  assumes "k \<in> fst ` set (AList.update f (createStateSnapshot f now st) (simulationHistory h))"
    and "k \<notin> fst ` set (simulationHistory (saveSimulationState (Some f) now st h))"
  shows "k < max (maxSavedFrame h) f - SNAPSHOT_BUFFER_SIZE + 1
         \<and> SNAPSHOT_BUFFER_SIZE
             < int (length (AList.update f (createStateSnapshot f now st) (simulationHistory h)))"
  using assms unfolding save_keys Let_def
  by (auto simp: AList.dom_update split: if_splits)

text \<open>
  C4. After one save per frame for the frames \<open>0, \<dots>, N\<close> on a cleared history, with the
  capacity of 5000: restoring frame 0 fails, with the state unchanged, as soon as
  \<open>0 < N - capacity + 1\<close>; restoring frame \<open>N\<close>, the largest saved frame, succeeds and
  installs the snapshot taken at frame \<open>N\<close>; the stored frames are exactly those from 0 to
  \<open>N\<close> that are not below \<open>N - capacity + 1\<close>. For any single save on any history, a
  frame that was stored (or is the one being saved) and is gone afterwards is strictly
  below \<open>maxFrame - capacity + 1\<close>, and the number of stored frames had exceeded the
  capacity.
\<close>

theorem history_eviction_bounds:
  "(0 < int N - SNAPSHOT_BUFFER_SIZE + 1 \<longrightarrow>
      restoreSimulationState 0 (save_upto env N) cur = (cur, RFalse))
   \<and> restoreSimulationState (int N) (save_upto env N) cur
       = (fst (restoreStateSnapshot
                 (Some (createStateSnapshot (int N) (fst (env N)) (snd (env N)))) cur),
          RFrame (int N))
   \<and> maxSavedFrame (save_upto env N) = int N
   \<and> fst ` set (simulationHistory (save_upto env N))
       = {k. 0 \<le> k \<and> k \<le> int N \<and> \<not> k < int N - SNAPSHOT_BUFFER_SIZE + 1}
   \<and> (k \<in> fst ` set (AList.update f (createStateSnapshot f now st) (simulationHistory h))
        \<and> k \<notin> fst ` set (simulationHistory (saveSimulationState (Some f) now st h))
      \<longrightarrow> k < max (maxSavedFrame h) f - SNAPSHOT_BUFFER_SIZE + 1
          \<and> SNAPSHOT_BUFFER_SIZE
              < int (length (AList.update f (createStateSnapshot f now st) (simulationHistory h))))"
proof -
  note inv = save_upto_inv [of env N]
  have keys: "fst ` set (simulationHistory (save_upto env N))
       = {k. 0 \<le> k \<and> k \<le> int N \<and> \<not> k < int N - SNAPSHOT_BUFFER_SIZE + 1}"
    using inv by (auto simp: oldest_kept_def)
  have zero: "restoreSimulationState 0 (save_upto env N) cur = (cur, RFalse)"
    if "0 < int N - SNAPSHOT_BUFFER_SIZE + 1"
  proof -
    have "(0::int) \<notin> fst ` set (simulationHistory (save_upto env N))"
      using that unfolding keys by simp
    then have "map_of (simulationHistory (save_upto env N)) 0 = None"
      by (simp add: map_of_eq_None_iff)
    then show ?thesis by (simp add: restoreSimulationState_def)
  qed
  have last: "restoreSimulationState (int N) (save_upto env N) cur
       = (fst (restoreStateSnapshot
                 (Some (createStateSnapshot (int N) (fst (env N)) (snd (env N)))) cur),
          RFrame (int N))"
    by (simp add: restoreSimulationState_def save_upto_last restoreStateSnapshot_def)
  show ?thesis
    using keys zero last inv save_evicts_only_old [of k f now st h] by blast
qed

theorem history_eviction_bounds_witness:
  "0 < int 5000 - SNAPSHOT_BUFFER_SIZE + 1
   \<and> restoreSimulationState 0 (save_upto (\<lambda>_. (0, initial_state)) 5000) initial_state
       = (initial_state, RFalse)
   \<and> snd (restoreSimulationState 5000 (save_upto (\<lambda>_. (0, initial_state)) 5000) initial_state)
       = RFrame 5000
   \<and> fst ` set (simulationHistory (save_upto (\<lambda>_. (0, initial_state)) 4999)) = {0 .. 4999}
   \<and> fst ` set (simulationHistory (save_upto (\<lambda>_. (0, initial_state)) 5000)) = {1 .. 5000}
   \<and> 0 \<in> fst ` set (AList.update 5000 (createStateSnapshot 5000 0 initial_state)
                       (simulationHistory (save_upto (\<lambda>_. (0, initial_state)) 4999)))
   \<and> 0 \<notin> fst ` set (simulationHistory (saveSimulationState (Some 5000) 0 initial_state
                       (save_upto (\<lambda>_. (0, initial_state)) 4999)))
   \<and> 0 < max (maxSavedFrame (save_upto (\<lambda>_. (0, initial_state)) 4999)) 5000
           - SNAPSHOT_BUFFER_SIZE + 1
   \<and> SNAPSHOT_BUFFER_SIZE
       < int (length (AList.update 5000 (createStateSnapshot 5000 0 initial_state)
                       (simulationHistory (save_upto (\<lambda>_. (0, initial_state)) 4999))))"
proof -
  let ?env = "\<lambda>_::nat. (0::real, initial_state)"
  have cap: "0 < int 5000 - SNAPSHOT_BUFFER_SIZE + 1"
    by (simp add: SNAPSHOT_BUFFER_SIZE_def)
  have s1: "{k. 0 \<le> k \<and> k \<le> int 5000 \<and> \<not> k < int 5000 - SNAPSHOT_BUFFER_SIZE + 1} = {1 .. 5000}"
    by (auto simp: SNAPSHOT_BUFFER_SIZE_def)
  have s0: "{k. 0 \<le> k \<and> k \<le> int 4999 \<and> \<not> k < int 4999 - SNAPSHOT_BUFFER_SIZE + 1} = {0 .. 4999}"
    by (auto simp: SNAPSHOT_BUFFER_SIZE_def)
  have step: "save_upto ?env 5000
      = saveSimulationState (Some 5000) 0 initial_state (save_upto ?env 4999)"
  proof -
    have "(5000::nat) = Suc 4999" by simp
    then have "save_upto ?env 5000 = save_upto ?env (Suc 4999)" by (rule arg_cong)
    then show ?thesis by (simp only: save_upto.simps fst_conv snd_conv) simp
  qed
  have before: "fst ` set (simulationHistory (save_upto ?env 4999)) = {0 .. 4999}"
    using history_eviction_bounds [of 4999 ?env initial_state] s0 by simp
  have after: "fst ` set (simulationHistory (save_upto ?env 5000)) = {1 .. 5000}"
    using history_eviction_bounds [of 5000 ?env initial_state] s1 by simp
  have gone: "0 \<notin> fst ` set (simulationHistory (saveSimulationState (Some 5000) 0 initial_state
                       (save_upto ?env 4999)))"
    using after unfolding step by simp
  have was: "0 \<in> fst ` set (AList.update 5000 (createStateSnapshot 5000 0 initial_state)
                       (simulationHistory (save_upto ?env 4999)))"
    using before by (simp add: AList.dom_update)
  show ?thesis
    using cap before after was gone
      history_eviction_bounds [of 5000 ?env initial_state 0 5000 0 initial_state
        "save_upto ?env 4999"]
    by simp
qed

section \<open>Distances and angles\<close>

lemma hypot_nonneg: "0 \<le> hypot a b"
  by (simp add: hypot_def)

lemma hypot_eq_0_iff: "hypot a b = 0 \<longleftrightarrow> a = 0 \<and> b = 0"
  by (simp add: hypot_def sum_power2_eq_zero_iff)

lemma hypot_zero_left: "hypot 0 b = \<bar>b\<bar>"
  by (simp add: hypot_def)

lemma hypot_zero_right: "hypot a 0 = \<bar>a\<bar>"
  by (simp add: hypot_def)

lemma hypot_scale: "hypot (a * c) (b * c) = hypot a b * \<bar>c\<bar>"
proof -
  have "(a * c)\<^sup>2 + (b * c)\<^sup>2 = (a\<^sup>2 + b\<^sup>2) * c\<^sup>2"
    by (simp add: power_mult_distrib distrib_right)
  then show ?thesis
    by (simp add: hypot_def real_sqrt_mult)
qed

lemma hypot_polar: "0 \<le> s \<Longrightarrow> hypot (cos t * s) (sin t * s) = s"
  using hypot_scale [of "cos t" s "sin t"] by (simp add: hypot_def)

lemma hypot_polar_mirror: "0 \<le> s \<Longrightarrow> hypot (sin t * s) (- (cos t * s)) = s"
  using hypot_scale [of "sin t" s "- cos t"] by (simp add: hypot_def)

lemma unit_normal:
  assumes "hypot dx dy \<noteq> 0"
  shows "(dx / hypot dx dy)\<^sup>2 + (dy / hypot dx dy)\<^sup>2 = 1"
proof -
  have sq: "(hypot dx dy)\<^sup>2 = dx\<^sup>2 + dy\<^sup>2"
    by (simp add: hypot_def)
  have "(dx / hypot dx dy)\<^sup>2 + (dy / hypot dx dy)\<^sup>2
          = (dx\<^sup>2 + dy\<^sup>2) / (hypot dx dy)\<^sup>2"
    by (simp only: power_divide add_divide_distrib)
  also have "\<dots> = 1"
    using assms by (simp only: sq [symmetric]) simp
  finally show ?thesis .
qed

lemma hypot_unit_normal:
  assumes "hypot dx dy \<noteq> 0"
  shows "hypot (dx / hypot dx dy) (dy / hypot dx dy) = 1"
  by (subst hypot_def) (simp add: unit_normal [OF assms])

lemma hypot_reflect:
  assumes "nx\<^sup>2 + ny\<^sup>2 = 1"
  shows "hypot (vx - 2 * (vx * nx + vy * ny) * nx) (vy - 2 * (vx * nx + vy * ny) * ny)
           = hypot vx vy"
proof -
  have "(vx - 2 * (vx * nx + vy * ny) * nx)\<^sup>2 + (vy - 2 * (vx * nx + vy * ny) * ny)\<^sup>2
          = vx\<^sup>2 + vy\<^sup>2 - 4 * (vx * nx + vy * ny)\<^sup>2 + 4 * (vx * nx + vy * ny)\<^sup>2 * (nx\<^sup>2 + ny\<^sup>2)"
    by (simp add: power2_eq_square algebra_simps)
  then show ?thesis
    using assms by (simp add: hypot_def)
qed

lemma atan2_pos_x: "0 < x \<Longrightarrow> atan2 y x = arctan (y / x)"
  by (simp add: atan2_def)

lemma atan2_zero_x_pos: "0 < y \<Longrightarrow> atan2 y 0 = pi / 2"
  by (simp add: atan2_def)

lemma atan2_zero_x_neg: "y < 0 \<Longrightarrow> atan2 y 0 = - pi / 2"
  by (simp add: atan2_def)

lemma atan2_neg_x_zero: "x < 0 \<Longrightarrow> atan2 0 x = pi"
  by (simp add: atan2_def)

lemma sqrt_one_plus_ratio:
  assumes "x \<noteq> 0"
  shows "sqrt (1 + (y / x)\<^sup>2) = hypot x y / \<bar>x\<bar>"
proof -
  have "1 + (y / x)\<^sup>2 = (x\<^sup>2 + y\<^sup>2) / x\<^sup>2"
    using assms by (simp add: power_divide add_divide_distrib)
  then have "sqrt (1 + (y / x)\<^sup>2) = sqrt (x\<^sup>2 + y\<^sup>2) / sqrt (x\<^sup>2)"
    by (simp only: real_sqrt_divide)
  then show ?thesis
    by (simp add: hypot_def)
qed

lemma cos_arctan_ratio:
  assumes "x \<noteq> 0"
  shows "cos (arctan (y / x)) = \<bar>x\<bar> / hypot x y"
  by (simp only: cos_arctan sqrt_one_plus_ratio [OF assms]) simp

lemma sin_arctan_ratio:
  assumes "x \<noteq> 0"
  shows "sin (arctan (y / x)) = (y / x) * \<bar>x\<bar> / hypot x y"
  by (simp only: sin_arctan sqrt_one_plus_ratio [OF assms]) simp

lemma atan2_range: "- pi < atan2 y x \<and> atan2 y x \<le> pi"
proof -
  have b: "- (pi / 2) < arctan (y / x)" "arctan (y / x) < pi / 2"
    by (rule arctan_lbound, rule arctan_ubound)
  consider "0 < x" | "x < 0" "0 \<le> y" | "x < 0" "y < 0" | "x = 0"
    by linarith
  then show ?thesis
  proof cases
    case 1
    then show ?thesis using b pi_gt_zero by (simp add: atan2_def)
  next
    case 2
    then have "y / x \<le> 0" by (simp add: divide_nonneg_neg)
    then have "arctan (y / x) \<le> 0" by (simp add: arctan_le_zero_iff)
    then show ?thesis using 2 b by (simp add: atan2_def)
  next
    case 3
    then have "0 < y / x" by (simp add: divide_neg_neg)
    then have "0 < arctan (y / x)" by (simp add: zero_less_arctan_iff)
    then show ?thesis using 3 b by (simp add: atan2_def)
  next
    case 4
    have "- (pi / 2) \<le> pi" using pi_gt_zero by linarith
    with 4 show ?thesis by (auto simp: atan2_def)
  qed
qed

lemma cos_sin_atan2:
  assumes "x \<noteq> 0 \<or> y \<noteq> 0"
  shows "cos (atan2 y x) = x / hypot x y \<and> sin (atan2 y x) = y / hypot x y"
proof -
  consider "0 < x" | "x < 0" | "x = 0" "0 < y" | "x = 0" "y < 0"
    using assms by linarith
  then show ?thesis
  proof cases
    case 1
    then show ?thesis
      using cos_arctan_ratio [of x y] sin_arctan_ratio [of x y] by (simp add: atan2_def)
  next
    case 2
    then show ?thesis
      using cos_arctan_ratio [of x y] sin_arctan_ratio [of x y] by (simp add: atan2_def)
  next
    case 3
    then show ?thesis by (simp add: atan2_def hypot_zero_left)
  next
    case 4
    then show ?thesis by (simp add: atan2_def hypot_zero_left)
  qed
qed

lemma atan2_mirrored_incidence:
  assumes "0 < a" and "a < pi / 2" and "0 < s"
  shows "atan2 (- (cos a * s)) (sin a * s) = a - pi / 2"
proof -
  have sa: "0 < sin a" using assms by (simp add: sin_gt_zero)
  have ca: "0 < cos a" using assms by (simp add: cos_gt_zero)
  have "tan (a - pi / 2) = sin (a - pi / 2) / cos (a - pi / 2)"
    by (simp add: tan_def)
  also have "\<dots> = - cos a / sin a"
    by (simp add: sin_diff cos_diff)
  finally have t: "- cos a / sin a = tan (a - pi / 2)" by simp
  have "atan2 (- (cos a * s)) (sin a * s) = arctan (- (cos a * s) / (sin a * s))"
    using sa assms(3) by (simp add: atan2_def)
  also have "- (cos a * s) / (sin a * s) = - cos a / sin a"
    using assms(3) by simp
  also have "arctan (- cos a / sin a) = a - pi / 2"
    unfolding t using assms by (intro arctan_tan) simp_all
  finally show ?thesis .
qed

lemma normalize_above_id: "a \<le> 180 \<Longrightarrow> normalize_above a = a"
  by (simp add: normalize_above.simps)

lemma normalize_below_id: "- 180 \<le> a \<Longrightarrow> normalize_below a = a"
  by (simp add: normalize_below.simps)

lemma normalize_reflection_angle:
  "normalize_below (normalize_above ((atan2 y x * 180) / pi)) = (atan2 y x * 180) / pi"
proof -
  have "atan2 y x * 180 / pi \<le> 180" "- 180 \<le> atan2 y x * 180 / pi"
    using atan2_range [of y x] pi_gt_zero by (simp_all add: field_simps)
  then show ?thesis
    by (simp add: normalize_above_id normalize_below_id)
qed

section \<open>Properties of the wall contact\<close>

lemma gap_offset_wraps:
  "- pi < gap_offset ar ball \<and> gap_offset ar ball \<le> pi
   \<and> cos (gap_offset ar ball)
       = cos (atan2 (ball_y ball - arena_cy ar) (ball_x ball - arena_cx ar) - arena_gapAngle ar)
   \<and> sin (gap_offset ar ball)
       = sin (atan2 (ball_y ball - arena_cy ar) (ball_x ball - arena_cx ar) - arena_gapAngle ar)"
proof -
  let ?d = "atan2 (ball_y ball - arena_cy ar) (ball_x ball - arena_cx ar) - arena_gapAngle ar"
  have nz: "cos ?d \<noteq> 0 \<or> sin ?d \<noteq> 0"
    using sin_zero_abs_cos_one [of ?d] by auto
  have h: "hypot (cos ?d) (sin ?d) = 1"
    by (simp add: hypot_def)
  show ?thesis
    using atan2_range [of "sin ?d" "cos ?d"] cos_sin_atan2 [OF nz]
    by (simp add: gap_offset_def Let_def h)
qed

lemma constrain_reflection_speed:
  "hypot (fst (constrain_reflection config vx vy)) (snd (constrain_reflection config vx vy))
     = hypot vx vy"
  by (simp add: constrain_reflection_def Let_def hypot_polar hypot_nonneg)

lemma constrain_reflection_unchanged:
  assumes "minReflectionAngle config \<le> \<bar>(atan2 vy vx * 180) / pi\<bar>"
    and "\<bar>(atan2 vy vx * 180) / pi\<bar> \<le> maxReflectionAngle config"
  shows "constrain_reflection config vx vy = (vx, vy)"
proof -
  define th where "th = (atan2 vy vx * 180) / pi"
  have a: "\<not> maxReflectionAngle config < th" "\<not> th < - maxReflectionAngle config"
    "\<not> \<bar>th\<bar> < minReflectionAngle config"
    using assms unfolding th_def by linarith+
  have n: "normalize_below (normalize_above th) = th"
    unfolding th_def by (rule normalize_reflection_angle)
  show ?thesis
    by (simp only: constrain_reflection_def Let_def th_def [symmetric]) (simp add: a n)
qed

lemma call_handler_None: "call_handler None ev b = (b, [])"
  by (simp add: call_handler_def)

lemma call_handler_Some: "call_handler (Some f) ev b = (f b, [ev])"
  by (simp add: call_handler_def)

lemma arcade_reflectWall_wall:
  assumes "wall_contact ar ball" and "\<not> in_gap ar ball"
    and "hypot (ball_x ball - arena_cx ar) (ball_y ball - arena_cy ar) \<noteq> 0"
  shows "arcade_reflectWall config ar prog ball =
     (let dx = ball_x ball - arena_cx ar;
          dy = ball_y ball - arena_cy ar;
          dist = hypot dx dy;
          nx = dx / dist;
          ny = dy / dist;
          overlap = dist + ball_r ball - arena_r ar;
          vdotn = ball_vx ball * nx + ball_vy ball * ny;
          cv = constrain_reflection config (ball_vx ball - 2 * vdotn * nx)
                 (ball_vy ball - 2 * vdotn * ny);
          ball2 = ball\<lparr>ball_x := ball_x ball - nx * overlap, ball_y := ball_y ball - ny * overlap,
                        ball_vx := fst cv, ball_vy := snd cv\<rparr>;
          called = call_handler (handler onWallHit prog) (EvWallHit (ball_id ball)) ball2
      in Some \<lparr>wr_ball = fst called, wr_contact = True, wr_events = snd called\<rparr>)"
  using assms
  by (simp add: arcade_reflectWall_def wall_contact_def Let_def split_beta)

subsection \<open>Example contacts in the default arena\<close>

lemma right_ball_contact: "wall_contact default_arena (example_ball 1 1010 960 100 0 15)"
  by (simp add: wall_contact_def default_arena_def example_ball_def hypot_zero_right)

lemma right_ball_not_in_gap: "\<not> in_gap default_arena (example_ball 1 1010 960 100 0 15)"
  using pi_ge_two
  by (simp add: in_gap_def gap_offset_def default_arena_def example_ball_def Let_def
      atan2_pos_x atan2_zero_x_pos)

lemma constrain_straight_left:
  "constrain_reflection (cfg_arcade default_physicsConfig) (- 100) 0
     = (cos (165 * pi / 180) * 100, sin (165 * pi / 180) * 100)"
  by (simp add: constrain_reflection_def default_physicsConfig_def Let_def atan2_neg_x_zero
      normalize_above_id normalize_below_id hypot_zero_right)

lemma right_ball_clamped:
  "ArcadePhysics_reflectWall default_physicsConfig default_arena None
      (example_ball 1 1010 960 100 0 15)
     = Some \<lparr>wr_ball = example_ball 1 (1010 - 9.8) 960
                 (cos (165 * pi / 180) * 100) (sin (165 * pi / 180) * 100) 15,
             wr_contact = True, wr_events = []\<rparr>"
proof -
  have dist: "hypot (ball_x (example_ball 1 1010 960 100 0 15) - arena_cx default_arena)
      (ball_y (example_ball 1 1010 960 100 0 15) - arena_cy default_arena) = 470"
    by (simp add: example_ball_def default_arena_def hypot_zero_right)
  show ?thesis
    unfolding ArcadePhysics_reflectWall_def
    using arcade_reflectWall_wall [OF right_ball_contact right_ball_not_in_gap,
        of "cfg_arcade default_physicsConfig" None]
    by (simp add: dist Let_def)
       (simp add: example_ball_def default_arena_def constrain_straight_left handler_def
         call_handler_def)
qed

lemma top_ball_contact: "wall_contact default_arena (example_ball 1 540 490 0 (- 100) 15)"
  by (simp add: wall_contact_def default_arena_def example_ball_def hypot_zero_left)

lemma top_ball_in_gap: "in_gap default_arena (example_ball 1 540 490 0 (- 100) 15)"
  by (simp add: in_gap_def gap_offset_def default_arena_def example_ball_def Let_def
      atan2_pos_x atan2_zero_x_neg)

lemma lowest_point_contact:
  "wall_contact default_arena (example_ball 1 540 1430 vx vy 15)"
  by (simp add: wall_contact_def default_arena_def example_ball_def hypot_zero_left)

lemma lowest_point_not_in_gap:
  "\<not> in_gap default_arena (example_ball 1 540 1430 vx vy 15)"
  using pi_ge_two
  by (simp add: in_gap_def gap_offset_def default_arena_def example_ball_def Let_def
      atan2_zero_x_pos atan2_neg_x_zero)

lemma lowest_point_result:
  assumes "constrain_reflection (cfg_arcade pc) vx (- vy) = (vx, - vy)"
  shows "ArcadePhysics_reflectWall pc default_arena None (example_ball 1 540 1430 vx vy 15)
     = Some \<lparr>wr_ball = example_ball 1 540 (1430 - 9.8) vx (- vy) 15,
             wr_contact = True, wr_events = []\<rparr>"
proof -
  have dist: "hypot (ball_x (example_ball 1 540 1430 vx vy 15) - arena_cx default_arena)
      (ball_y (example_ball 1 540 1430 vx vy 15) - arena_cy default_arena) = 470"
    by (simp add: example_ball_def default_arena_def hypot_zero_left)
  show ?thesis
    unfolding ArcadePhysics_reflectWall_def
    using arcade_reflectWall_wall [OF lowest_point_contact [of vx vy]
        lowest_point_not_in_gap [of vx vy], of "cfg_arcade pc" None] assms
    by (simp add: dist Let_def)
       (simp add: example_ball_def default_arena_def handler_def call_handler_def)
qed

lemma constrain_straight_up:
  "constrain_reflection (cfg_arcade default_physicsConfig) 0 (- 100) = (0, - 100)"
  by (simp add: constrain_reflection_def default_physicsConfig_def Let_def atan2_zero_x_neg
      normalize_above_id normalize_below_id)

lemma ten_degree_axis_angle:
  "(atan2 (- (cos (pi / 18) * 100)) (sin (pi / 18) * 100) * 180) / pi = - 80"
proof -
  have "atan2 (- (cos (pi / 18) * 100)) (sin (pi / 18) * 100) = pi / 18 - pi / 2"
    using pi_gt_zero by (intro atan2_mirrored_incidence) simp_all
  then show ?thesis by simp
qed

lemma constrain_ten_degrees:
  "constrain_reflection (cfg_arcade default_physicsConfig)
      (sin (pi / 18) * 100) (- (cos (pi / 18) * 100))
     = (sin (pi / 18) * 100, - (cos (pi / 18) * 100))"
  by (rule constrain_reflection_unchanged)
     (simp_all only: ten_degree_axis_angle, simp_all add: default_physicsConfig_def)

lemma ten_degree_deviation:
  "angle_between_deg 0 (- 1) (sin (pi / 18) * 100) (- (cos (pi / 18) * 100)) = 10"
proof -
  have h: "hypot (sin (pi / 18) * 100) (- (cos (pi / 18) * 100)) = 100"
    by (rule hypot_polar_mirror) simp
  have ac: "arccos (cos (pi / 18)) = pi / 18"
    using pi_gt_zero by (intro arccos_cos) simp_all
  have "angle_between_deg 0 (- 1) (sin (pi / 18) * 100) (- (cos (pi / 18) * 100))
      = arccos (cos (pi / 18)) * 180 / pi"
    by (simp add: angle_between_deg_def h hypot_zero_left)
  also have "\<dots> = pi / 18 * 180 / pi" by (simp only: ac)
  also have "\<dots> = 10" by simp
  finally show ?thesis .
qed

subsection \<open>Speed across a wall reflection\<close>

text \<open>
  C3. As stated for every non-gap wall contact the claim fails: the \<open>onWallHit\<close> handler
  runs inside the call and may write the velocity (the closed theorem after the witness
  shows it). What holds: for the Arcade engine, a contact
  with the wall outside the gap, a ball centre that is not on the arena centre, and an
  \<open>onWallHit\<close> handler that is absent or leaves \<open>vx\<close> and \<open>vy\<close> as it found them,
  \<open>reflectWall\<close> returns \<open>true\<close> and the speed of the ball after the call is its speed
  before the call, whether or not the angle constraint changed the direction.
\<close>

theorem arcade_wall_speed_preserved:
  assumes contact: "wall_contact ar ball"
    and nogap: "\<not> in_gap ar ball"
    and off: "ball_x ball \<noteq> arena_cx ar \<or> ball_y ball \<noteq> arena_cy ar"
    and cb: "\<And>f b. handler onWallHit prog = Some f \<Longrightarrow>
               ball_vx (f b) = ball_vx b \<and> ball_vy (f b) = ball_vy b"
  shows "\<exists>res. ArcadePhysics_reflectWall pc ar prog ball = Some res \<and> wr_contact res
           \<and> hypot (ball_vx (wr_ball res)) (ball_vy (wr_ball res))
               = hypot (ball_vx ball) (ball_vy ball)"
proof -
  define dx where "dx = ball_x ball - arena_cx ar"
  define dy where "dy = ball_y ball - arena_cy ar"
  define nx where "nx = dx / hypot dx dy"
  define ny where "ny = dy / hypot dx dy"
  define vdotn where "vdotn = ball_vx ball * nx + ball_vy ball * ny"
  define cv where "cv = constrain_reflection (cfg_arcade pc) (ball_vx ball - 2 * vdotn * nx)
                 (ball_vy ball - 2 * vdotn * ny)"
  define ball2 where "ball2 = ball\<lparr>ball_x := ball_x ball - nx * (hypot dx dy + ball_r ball - arena_r ar),
                        ball_y := ball_y ball - ny * (hypot dx dy + ball_r ball - arena_r ar),
                        ball_vx := fst cv, ball_vy := snd cv\<rparr>"
  define called where "called = call_handler (handler onWallHit prog) (EvWallHit (ball_id ball)) ball2"
  have dist: "hypot dx dy \<noteq> 0"
    using off by (simp add: hypot_eq_0_iff dx_def dy_def)
  have unit: "nx\<^sup>2 + ny\<^sup>2 = 1"
    unfolding nx_def ny_def by (rule unit_normal [OF dist])
  have res: "ArcadePhysics_reflectWall pc ar prog ball
      = Some \<lparr>wr_ball = fst called, wr_contact = True, wr_events = snd called\<rparr>"
    using arcade_reflectWall_wall [OF contact nogap, of "cfg_arcade pc" prog] dist
    by (simp add: ArcadePhysics_reflectWall_def Let_def dx_def dy_def nx_def ny_def vdotn_def
        cv_def ball2_def called_def)
  have "hypot (fst cv) (snd cv) = hypot (ball_vx ball) (ball_vy ball)"
    unfolding cv_def vdotn_def
    by (simp only: constrain_reflection_speed hypot_reflect [OF unit])
  then have physics: "hypot (ball_vx ball2) (ball_vy ball2) = hypot (ball_vx ball) (ball_vy ball)"
    by (simp add: ball2_def)
  have "ball_vx (fst called) = ball_vx ball2 \<and> ball_vy (fst called) = ball_vy ball2"
  proof (cases "handler onWallHit prog")
    case None
    then show ?thesis by (simp add: called_def call_handler_None)
  next
    case (Some f)
    then show ?thesis using cb [OF Some, of ball2] by (simp add: called_def call_handler_Some)
  qed
  with physics res show ?thesis by simp
qed

theorem arcade_wall_speed_preserved_witness:
  "wall_contact default_arena (example_ball 1 1010 960 100 0 15)
   \<and> \<not> in_gap default_arena (example_ball 1 1010 960 100 0 15)
   \<and> ArcadePhysics_reflectWall default_physicsConfig default_arena None
        (example_ball 1 1010 960 100 0 15)
       = Some \<lparr>wr_ball = example_ball 1 (1010 - 9.8) 960
                   (cos (165 * pi / 180) * 100) (sin (165 * pi / 180) * 100) 15,
               wr_contact = True, wr_events = []\<rparr>
   \<and> hypot (cos (165 * pi / 180) * 100) (sin (165 * pi / 180) * 100) = hypot 100 0"
proof -
  have off: "ball_x (example_ball 1 1010 960 100 0 15) \<noteq> arena_cx default_arena
      \<or> ball_y (example_ball 1 1010 960 100 0 15) \<noteq> arena_cy default_arena"
    by (simp add: example_ball_def default_arena_def)
  have "\<exists>res. ArcadePhysics_reflectWall default_physicsConfig default_arena None
               (example_ball 1 1010 960 100 0 15) = Some res
          \<and> wr_contact res
          \<and> hypot (ball_vx (wr_ball res)) (ball_vy (wr_ball res))
              = hypot (ball_vx (example_ball 1 1010 960 100 0 15))
                  (ball_vy (example_ball 1 1010 960 100 0 15))"
    using arcade_wall_speed_preserved [OF right_ball_contact right_ball_not_in_gap off,
        of None default_physicsConfig]
    by (simp add: handler_def)
  then have "hypot (cos (165 * pi / 180) * 100) (sin (165 * pi / 180) * 100) = hypot 100 0"
    unfolding right_ball_clamped by (simp add: example_ball_def)
  then show ?thesis
    using right_ball_contact right_ball_not_in_gap right_ball_clamped by simp
qed

text \<open>
  The same contact at the lowest point of the default arena, head-on at speed 100, with an
  \<open>onWallHit\<close> handler that doubles the velocity (what \<open>scaleSpeed(2)\<close> does through the
  proxy): the call is a non-gap wall contact and the ball leaves it at speed 200.
\<close>

theorem arcade_wall_speed_counterexample:
  "wall_contact default_arena (example_ball 1 540 1430 0 100 15)
   \<and> \<not> in_gap default_arena (example_ball 1 540 1430 0 100 15)
   \<and> ArcadePhysics_reflectWall default_physicsConfig default_arena
        (Some \<lparr>onWallHit = Some (\<lambda>b. b\<lparr>ball_vx := ball_vx b * 2, ball_vy := ball_vy b * 2\<rparr>),
               onExit = None, onBallCollision = None\<rparr>)
        (example_ball 1 540 1430 0 100 15)
       = Some \<lparr>wr_ball = example_ball 1 540 (1430 - 9.8) 0 (- 200) 15,
               wr_contact = True, wr_events = [EvWallHit 1]\<rparr>
   \<and> hypot (ball_vx (example_ball 1 540 1430 0 100 15))
          (ball_vy (example_ball 1 540 1430 0 100 15)) = 100
   \<and> hypot (ball_vx (example_ball 1 540 (1430 - 9.8) 0 (- 200) 15))
          (ball_vy (example_ball 1 540 (1430 - 9.8) 0 (- 200) 15)) = 200"
proof -
  let ?prog = "Some \<lparr>onWallHit = Some (\<lambda>b. b\<lparr>ball_vx := ball_vx b * 2, ball_vy := ball_vy b * 2\<rparr>),
               onExit = None, onBallCollision = None\<rparr>"
  have dist: "hypot (ball_x (example_ball 1 540 1430 0 100 15) - arena_cx default_arena)
      (ball_y (example_ball 1 540 1430 0 100 15) - arena_cy default_arena) = 470"
    by (simp add: example_ball_def default_arena_def hypot_zero_left)
  have res: "ArcadePhysics_reflectWall default_physicsConfig default_arena ?prog
        (example_ball 1 540 1430 0 100 15)
       = Some \<lparr>wr_ball = example_ball 1 540 (1430 - 9.8) 0 (- 200) 15,
               wr_contact = True, wr_events = [EvWallHit 1]\<rparr>"
    unfolding ArcadePhysics_reflectWall_def
    using arcade_reflectWall_wall [OF lowest_point_contact [of 0 100]
        lowest_point_not_in_gap [of 0 100], of "cfg_arcade default_physicsConfig" ?prog]
      constrain_straight_up
    by (simp add: dist Let_def)
       (simp add: example_ball_def default_arena_def handler_def call_handler_def)
  have speeds: "hypot (ball_vx (example_ball 1 540 1430 0 100 15))
          (ball_vy (example_ball 1 540 1430 0 100 15)) = 100"
    "hypot (ball_vx (example_ball 1 540 (1430 - 9.8) 0 (- 200) 15))
          (ball_vy (example_ball 1 540 (1430 - 9.8) 0 (- 200) 15)) = 200"
    by (simp_all add: example_ball_def hypot_zero_left)
  show ?thesis
    using lowest_point_contact [of 0 100] lowest_point_not_in_gap [of 0 100] res speeds
    by simp
qed

subsection \<open>Gap exit\<close>

lemma gap_exit_fields:
  "wr_contact (gap_exit ar prog ball)
   \<and> ball_x (wr_ball (gap_exit ar prog ball)) = arena_cx ar
   \<and> ball_y (wr_ball (gap_exit ar prog ball)) = arena_cy ar
   \<and> wr_events (gap_exit ar prog ball)
       = (case handler onExit prog of None \<Rightarrow> [] | Some f \<Rightarrow> [EvExit (ball_id ball)])"
  by (simp add: gap_exit_def call_handler_def split: option.splits)

lemma reflectWall_gap:
  assumes "wall_contact ar ball" and "in_gap ar ball"
  shows "reflectWall physicsEngine pc ar prog ball = Some (gap_exit ar prog ball)"
  using assms
  by (simp add: reflectWall_def ArcadePhysics_reflectWall_def ArcadeSimplePhysics_reflectWall_def
      RealisticPhysics_reflectWall_def arcade_reflectWall_def wall_contact_def Let_def)

text \<open>
  C7. For a ball in contact with the boundary whose angular position is within half the gap
  width of the gap angle, one call of \<open>reflectWall\<close>, for whichever engine, returns
  \<open>true\<close>, leaves the ball at the arena centre, and fires exactly the \<open>onExit\<close> handler,
  once, if one is registered, and nothing otherwise: \<open>onWallHit\<close> is not fired.
\<close>

theorem gap_exit_fires_once:
  assumes "wall_contact ar ball" and "in_gap ar ball"
  shows "\<exists>res. reflectWall physicsEngine pc ar prog ball = Some res
           \<and> wr_contact res
           \<and> ball_x (wr_ball res) = arena_cx ar \<and> ball_y (wr_ball res) = arena_cy ar
           \<and> wr_events res
               = (case handler onExit prog of None \<Rightarrow> [] | Some f \<Rightarrow> [EvExit (ball_id ball)])"
  using reflectWall_gap [OF assms] gap_exit_fields by simp

theorem gap_exit_fires_once_witness:
  "wall_contact default_arena (example_ball 1 540 490 0 (- 100) 15)
   \<and> in_gap default_arena (example_ball 1 540 490 0 (- 100) 15)
   \<and> (\<exists>res. reflectWall ''arcade'' default_physicsConfig default_arena
               (Some \<lparr>onWallHit = Some (\<lambda>b. b\<lparr>ball_r := ball_r b * 2\<rparr>),
                      onExit = Some (\<lambda>b. b\<lparr>ball_color := ''#ffffff''\<rparr>),
                      onBallCollision = None\<rparr>)
               (example_ball 1 540 490 0 (- 100) 15) = Some res
          \<and> wr_contact res
          \<and> ball_x (wr_ball res) = 540 \<and> ball_y (wr_ball res) = 960
          \<and> wr_events res = [EvExit 1])"
  using gap_exit_fires_once [OF top_ball_contact top_ball_in_gap, of "''arcade''"
      default_physicsConfig
      "Some \<lparr>onWallHit = Some (\<lambda>b. b\<lparr>ball_r := ball_r b * 2\<rparr>),
             onExit = Some (\<lambda>b. b\<lparr>ball_color := ''#ffffff''\<rparr>),
             onBallCollision = None\<rparr>"]
    top_ball_contact top_ball_in_gap
  by (simp add: handler_def default_arena_def example_ball_def)

text \<open>
  C10. When \<open>reflectWall\<close> takes the gap branch and no \<open>onExit\<close> handler is registered,
  the ball it leaves is the ball it was given with \<open>x\<close> and \<open>y\<close> set to the arena centre:
  velocity, radius, color, id, liveness and data are unchanged, and no handler is fired.
  This holds for every engine name.
\<close>

theorem gap_exit_without_handler:
  assumes "wall_contact ar ball" and "in_gap ar ball" and "handler onExit prog = None"
  shows "reflectWall physicsEngine pc ar prog ball
           = Some \<lparr>wr_ball = ball\<lparr>ball_x := arena_cx ar, ball_y := arena_cy ar\<rparr>,
                   wr_contact = True, wr_events = []\<rparr>"
  using reflectWall_gap [OF assms(1,2)] assms(3)
  by (simp add: gap_exit_def call_handler_def)

theorem gap_exit_without_handler_witness:
  "wall_contact default_arena (example_ball 1 540 490 0 (- 100) 15)
   \<and> in_gap default_arena (example_ball 1 540 490 0 (- 100) 15)
   \<and> handler onExit None = None
   \<and> reflectWall ''realistic'' default_physicsConfig default_arena None
        (example_ball 1 540 490 0 (- 100) 15)
       = Some \<lparr>wr_ball = example_ball 1 540 960 0 (- 100) 15, wr_contact = True, wr_events = []\<rparr>
   \<and> reflectWall ''arcade'' default_physicsConfig default_arena None
        (example_ball 1 540 490 0 (- 100) 15)
       = Some \<lparr>wr_ball = example_ball 1 540 960 0 (- 100) 15, wr_contact = True, wr_events = []\<rparr>"
proof -
  have h: "handler onExit None = None"
    by (simp add: handler_def)
  show ?thesis
    using gap_exit_without_handler [OF top_ball_contact top_ball_in_gap h, of "''realistic''"
        default_physicsConfig]
      gap_exit_without_handler [OF top_ball_contact top_ball_in_gap h, of "''arcade''"
        default_physicsConfig]
      top_ball_contact top_ball_in_gap h
    by (simp add: default_arena_def example_ball_def)
qed

subsection \<open>The reference direction of the angle constraint\<close>

text \<open>
  C2. The current Arcade \<open>reflectWall\<close> at the lowest point of the default arena (ball
  centre 470 below the arena centre, radius 15, no handlers), where the inward wall normal
  is \<open>(0, -1)\<close>. A ball arriving head-on with velocity \<open>(0, 100)\<close> leaves with the mirror
  reflection \<open>(0, -100)\<close>, 0 degrees from the normal; a ball arriving 10 degrees off the
  normal, with velocity \<open>(100 sin 10\<degree>, 100 cos 10\<degree>)\<close>, leaves with the mirror
  reflection \<open>(100 sin 10\<degree>, -100 cos 10\<degree>)\<close>, 10 degrees from the normal. Both
  deviations are below the configured minimum of 15 degrees and neither is pushed out to
  15: the constraint is applied to the angle of the velocity against the x axis (-90 and
  -80 degrees here), not to its angle against the wall normal.
\<close>

theorem arcade_clamp_ignores_wall_normal:
  "ArcadePhysics_reflectWall default_physicsConfig default_arena None
      (example_ball 1 540 1430 0 100 15)
     = Some \<lparr>wr_ball = example_ball 1 540 (1430 - 9.8) 0 (- 100) 15,
             wr_contact = True, wr_events = []\<rparr>
   \<and> angle_between_deg 0 (- 1) 0 (- 100) = 0
   \<and> ArcadePhysics_reflectWall default_physicsConfig default_arena None
      (example_ball 1 540 1430 (sin (pi / 18) * 100) (cos (pi / 18) * 100) 15)
     = Some \<lparr>wr_ball = example_ball 1 540 (1430 - 9.8)
                 (sin (pi / 18) * 100) (- (cos (pi / 18) * 100)) 15,
             wr_contact = True, wr_events = []\<rparr>
   \<and> angle_between_deg 0 (- 1) (sin (pi / 18) * 100) (- (cos (pi / 18) * 100)) = 10
   \<and> minReflectionAngle (cfg_arcade default_physicsConfig) = 15"
proof -
  have "angle_between_deg 0 (- 1) 0 (- 100) = 0"
    by (simp add: angle_between_deg_def hypot_zero_left)
  then show ?thesis
    using lowest_point_result [OF constrain_straight_up]
      lowest_point_result [OF constrain_ten_degrees] ten_degree_deviation
    by (simp add: default_physicsConfig_def)
qed

text \<open>
  The earlier version of the function, at the same two inputs, stores a velocity that is
  15 degrees from the inward normal.
\<close>

lemma constrain_v1_straight_up:
  "constrain_reflection_v1 (cfg_arcade default_physicsConfig) 0 1 0 (- 100)
     = (cos (pi / 2 - 165 * pi / 180) * 100, sin (pi / 2 - 165 * pi / 180) * 100)"
proof -
  have a: "\<not> pi < 15 * pi / 180" using pi_gt_zero by simp
  have b: "165 * pi / 180 < pi" using pi_gt_zero by simp
  have c: "pi / 2 - 165 * pi / 180 \<noteq> - pi / 2" using pi_gt_zero by simp
  show ?thesis
    using a b c
    by (simp add: constrain_reflection_v1_def default_physicsConfig_def Let_def
        atan2_zero_x_neg atan2_zero_x_pos hypot_zero_left)
qed

lemma constrain_v1_ten_degrees:
  "constrain_reflection_v1 (cfg_arcade default_physicsConfig) 0 1
      (sin (pi / 18) * 100) (- (cos (pi / 18) * 100))
     = (cos (pi / 2 - 165 * pi / 180) * 100, sin (pi / 2 - 165 * pi / 180) * 100)"
proof -
  have refl: "atan2 (- (cos (pi / 18) * 100)) (sin (pi / 18) * 100) = pi / 18 - pi / 2"
    using pi_gt_zero by (intro atan2_mirrored_incidence) simp_all
  have wall: "atan2 1 0 = pi / 2"
    by (simp add: atan2_zero_x_pos)
  have speed: "hypot (sin (pi / 18) * 100) (- (cos (pi / 18) * 100)) = 100"
    by (rule hypot_polar_mirror) simp
  have diff: "\<bar>pi / 18 - pi / 2 - pi / 2\<bar> = 17 * pi / 18"
    using pi_gt_zero by simp
  have a: "\<not> pi < 17 * pi / 18" "\<not> 17 * pi / 18 < 15 * pi / 180" "165 * pi / 180 < 17 * pi / 18"
    using pi_gt_zero by simp_all
  have sg: "sgn (pi / 18 - pi / 2 - pi / 2) = - 1"
    using pi_gt_zero by (simp add: sgn_if)
  have ne: "pi / 2 + - 1 * (165 * pi / 180) \<noteq> pi / 18 - pi / 2"
    using pi_gt_zero by simp
  have eq: "pi / 2 + - 1 * (165 * pi / 180) = pi / 2 - 165 * pi / 180"
    by simp
  show ?thesis
    unfolding constrain_reflection_v1_def Let_def refl wall speed diff sg
    using a ne by (simp only: default_physicsConfig_def arcade_config.simps physicsConfig.simps
        if_False if_True eq not_False_eq_True)
qed

lemma v1_lowest_point_result:
  assumes "constrain_reflection_v1 (cfg_arcade pc) 0 1 vx (- vy) = (wx, wy)"
  shows "ArcadePhysics_reflectWall_v1 pc default_arena None (example_ball 1 540 1430 vx vy 15)
     = Some \<lparr>wr_ball = example_ball 1 540 (1430 - 9.8) wx wy 15,
             wr_contact = True, wr_events = []\<rparr>"
proof -
  have dist: "hypot (ball_x (example_ball 1 540 1430 vx vy 15) - arena_cx default_arena)
      (ball_y (example_ball 1 540 1430 vx vy 15) - arena_cy default_arena) = 470"
    by (simp add: example_ball_def default_arena_def hypot_zero_left)
  show ?thesis
    using assms
    by (simp add: ArcadePhysics_reflectWall_v1_def dist lowest_point_not_in_gap Let_def)
       (simp add: example_ball_def default_arena_def handler_def call_handler_def)
qed

lemma deviation_polar:
  assumes "0 < s"
  shows "angle_between_deg 0 (- 1) (cos t * s) (sin t * s) = arccos (- sin t) * 180 / pi"
proof -
  have "hypot (cos t * s) (sin t * s) = s"
    using assms by (intro hypot_polar) simp
  then show ?thesis
    using assms by (simp add: angle_between_deg_def hypot_zero_left)
qed

lemma v1_deviation:
  "angle_between_deg 0 (- 1)
     (cos (pi / 2 - 165 * pi / 180) * 100) (sin (pi / 2 - 165 * pi / 180) * 100) = 15"
proof -
  have "- sin (pi / 2 - 165 * pi / 180) = sin (165 * pi / 180 - pi / 2)"
    using sin_minus [of "165 * pi / 180 - pi / 2"] by simp
  also have "\<dots> = cos (pi / 2 - (165 * pi / 180 - pi / 2))"
    using sin_cos_eq [of "165 * pi / 180 - pi / 2"] by simp
  also have "pi / 2 - (165 * pi / 180 - pi / 2) = pi / 12" by simp
  finally have s: "- sin (pi / 2 - 165 * pi / 180) = cos (pi / 12)" .
  have ac: "arccos (cos (pi / 12)) = pi / 12"
    using pi_gt_zero by (intro arccos_cos) simp_all
  have "angle_between_deg 0 (- 1)
     (cos (pi / 2 - 165 * pi / 180) * 100) (sin (pi / 2 - 165 * pi / 180) * 100)
      = arccos (- sin (pi / 2 - 165 * pi / 180)) * 180 / pi"
    by (rule deviation_polar) simp
  also have "\<dots> = pi / 12 * 180 / pi"
    by (simp only: s ac)
  also have "\<dots> = 15" by simp
  finally show ?thesis .
qed

lemma earlier_version_clamps_to_normal:
  "ArcadePhysics_reflectWall_v1 default_physicsConfig default_arena None
      (example_ball 1 540 1430 0 100 15)
     = Some \<lparr>wr_ball = example_ball 1 540 (1430 - 9.8)
                 (cos (pi / 2 - 165 * pi / 180) * 100) (sin (pi / 2 - 165 * pi / 180) * 100) 15,
             wr_contact = True, wr_events = []\<rparr>
   \<and> ArcadePhysics_reflectWall_v1 default_physicsConfig default_arena None
      (example_ball 1 540 1430 (sin (pi / 18) * 100) (cos (pi / 18) * 100) 15)
     = Some \<lparr>wr_ball = example_ball 1 540 (1430 - 9.8)
                 (cos (pi / 2 - 165 * pi / 180) * 100) (sin (pi / 2 - 165 * pi / 180) * 100) 15,
             wr_contact = True, wr_events = []\<rparr>
   \<and> angle_between_deg 0 (- 1)
        (cos (pi / 2 - 165 * pi / 180) * 100) (sin (pi / 2 - 165 * pi / 180) * 100) = 15"
  using v1_lowest_point_result [OF constrain_v1_straight_up]
    v1_lowest_point_result [OF constrain_v1_ten_degrees] v1_deviation
  by simp

section \<open>Properties of the collision response\<close>

lemma colliding_iff:
  "colliding a b \<longleftrightarrow>
     center_distance a b < ball_r a + ball_r b \<and> 0.0001 < center_distance a b"
  by (simp add: colliding_def center_distance_def Let_def)

lemma contact_normal_unit:
  assumes "colliding a b"
  shows "(fst (contact_normal a b))\<^sup>2 + (snd (contact_normal a b))\<^sup>2 = 1"
proof -
  have "hypot (ball_x b - ball_x a) (ball_y b - ball_y a) \<noteq> 0"
    using assms by (simp add: colliding_iff center_distance_def)
  then show ?thesis
    by (simp add: contact_normal_def Let_def unit_normal)
qed

lemma separate_pair_fields:
  "separate_pair a b =
     (a\<lparr>ball_x := ball_x a - fst (contact_normal a b)
                       * (ball_r a + ball_r b - center_distance a b)
                       * (ball_r b / (ball_r a + ball_r b)),
         ball_y := ball_y a - snd (contact_normal a b)
                       * (ball_r a + ball_r b - center_distance a b)
                       * (ball_r b / (ball_r a + ball_r b))\<rparr>,
      b\<lparr>ball_x := ball_x b + fst (contact_normal a b)
                       * (ball_r a + ball_r b - center_distance a b)
                       * (ball_r a / (ball_r a + ball_r b)),
         ball_y := ball_y b + snd (contact_normal a b)
                       * (ball_r a + ball_r b - center_distance a b)
                       * (ball_r a / (ball_r a + ball_r b))\<rparr>)"
  by (simp add: separate_pair_def contact_normal_def center_distance_def Let_def)

lemma separate_pair_distance:
  assumes "colliding a b"
  shows "center_distance (fst (separate_pair a b)) (snd (separate_pair a b))
           = ball_r a + ball_r b"
proof -
  define dx where "dx = ball_x b - ball_x a"
  define dy where "dy = ball_y b - ball_y a"
  define dist where "dist = hypot dx dy"
  define R where "R = ball_r a + ball_r b"
  have dist_pos: "0 < dist" and R_pos: "0 < R" and lt: "dist < R"
    using assms by (simp_all add: colliding_iff center_distance_def dist_def dx_def dy_def R_def)
  have ratio: "ball_r b / R + ball_r a / R = 1"
    using R_pos by (simp add: R_def add_divide_distrib [symmetric])
  have push: "d + d / dist * (R - dist) * (ball_r a / R) + d / dist * (R - dist) * (ball_r b / R)
        = d / dist * R" for d
  proof -
    have "d / dist * (R - dist) * (ball_r a / R) + d / dist * (R - dist) * (ball_r b / R)
        = d / dist * (R - dist) * (ball_r b / R + ball_r a / R)"
      by (simp only: distrib_left add.commute)
    also have "\<dots> = d / dist * (R - dist)" by (simp only: ratio mult_1_right)
    finally have "d + d / dist * (R - dist) * (ball_r a / R) + d / dist * (R - dist) * (ball_r b / R)
        = d + d / dist * (R - dist)" by simp
    also have "\<dots> = d / dist * R" using dist_pos by (simp add: field_simps)
    finally show ?thesis .
  qed
  note ex = push [of dx] and ey = push [of dy]
  have "center_distance (fst (separate_pair a b)) (snd (separate_pair a b))
      = hypot (ball_x b + dx / dist * (R - dist) * (ball_r a / R)
                 - (ball_x a - dx / dist * (R - dist) * (ball_r b / R)))
          (ball_y b + dy / dist * (R - dist) * (ball_r a / R)
                 - (ball_y a - dy / dist * (R - dist) * (ball_r b / R)))"
    by (simp add: separate_pair_def center_distance_def Let_def dx_def dy_def dist_def R_def)
  also have "ball_x b + dx / dist * (R - dist) * (ball_r a / R)
                 - (ball_x a - dx / dist * (R - dist) * (ball_r b / R))
      = dx + dx / dist * (R - dist) * (ball_r a / R) + dx / dist * (R - dist) * (ball_r b / R)"
    by (simp add: dx_def)
  also have "ball_y b + dy / dist * (R - dist) * (ball_r a / R)
                 - (ball_y a - dy / dist * (R - dist) * (ball_r b / R))
      = dy + dy / dist * (R - dist) * (ball_r a / R) + dy / dist * (R - dist) * (ball_r b / R)"
    by (simp add: dy_def)
  finally have "center_distance (fst (separate_pair a b)) (snd (separate_pair a b))
      = hypot (dx / dist * R) (dy / dist * R)"
    by (simp only: ex ey)
  also have "\<dots> = hypot (dx / dist) (dy / dist) * \<bar>R\<bar>"
    by (rule hypot_scale)
  also have "hypot (dx / dist) (dy / dist) = 1"
    using hypot_unit_normal [of dx dy] dist_pos by (simp add: dist_def)
  finally show ?thesis using R_pos by (simp add: R_def)
qed

lemma velocity_response_positions:
  "ball_x (fst (velocity_response pc e nx ny a b)) = ball_x a
   \<and> ball_y (fst (velocity_response pc e nx ny a b)) = ball_y a
   \<and> ball_x (snd (velocity_response pc e nx ny a b)) = ball_x b
   \<and> ball_y (snd (velocity_response pc e nx ny a b)) = ball_y b"
  by (simp add: velocity_response_def Let_def)

lemma velocity_response_radii:
  "ball_r (fst (velocity_response pc e nx ny a b)) = ball_r a
   \<and> ball_r (snd (velocity_response pc e nx ny a b)) = ball_r b"
  by (simp add: velocity_response_def Let_def)

lemma separate_pair_velocities:
  "ball_vx (fst (separate_pair a b)) = ball_vx a \<and> ball_vy (fst (separate_pair a b)) = ball_vy a
   \<and> ball_vx (snd (separate_pair a b)) = ball_vx b \<and> ball_vy (snd (separate_pair a b)) = ball_vy b
   \<and> ball_r (fst (separate_pair a b)) = ball_r a \<and> ball_r (snd (separate_pair a b)) = ball_r b"
  by (simp add: separate_pair_def Let_def)

lemma physical_response_distance:
  assumes "colliding a b"
  shows "center_distance (fst (physical_response pc e a b)) (snd (physical_response pc e a b))
           = ball_r a + ball_r b"
proof -
  have "center_distance (fst (physical_response pc e a b)) (snd (physical_response pc e a b))
      = center_distance (fst (separate_pair a b)) (snd (separate_pair a b))"
    by (simp add: physical_response_def split_beta center_distance_def
        velocity_response_positions)
  then show ?thesis
    by (simp only: separate_pair_distance [OF assms])
qed

lemma velocity_response_arcadeSimple:
  assumes "nx\<^sup>2 + ny\<^sup>2 = 1"
  shows "velocity_response pc ''arcadeSimple'' nx ny a b =
     (a\<lparr>ball_vx := ball_vx a - 2 * (ball_vx a * nx + ball_vy a * ny) * nx,
         ball_vy := ball_vy a - 2 * (ball_vx a * nx + ball_vy a * ny) * ny\<rparr>,
      b\<lparr>ball_vx := ball_vx b - 2 * (ball_vx b * nx + ball_vy b * ny) * nx,
         ball_vy := ball_vy b - 2 * (ball_vx b * nx + ball_vy b * ny) * ny\<rparr>)"
  using hypot_reflect [OF assms, of "ball_vx a" "ball_vy a"]
    hypot_reflect [OF assms, of "ball_vx b" "ball_vy b"]
  by (simp add: velocity_response_def Let_def)

lemma separate_pair_moves:
  assumes "colliding a b"
  shows "center_distance a (fst (separate_pair a b))
           = (ball_r a + ball_r b - center_distance a b) * \<bar>ball_r b\<bar> / (ball_r a + ball_r b)
   \<and> center_distance b (snd (separate_pair a b))
       = (ball_r a + ball_r b - center_distance a b) * \<bar>ball_r a\<bar> / (ball_r a + ball_r b)"
proof -
  define nx where "nx = fst (contact_normal a b)"
  define ny where "ny = snd (contact_normal a b)"
  define ov where "ov = ball_r a + ball_r b - center_distance a b"
  define R where "R = ball_r a + ball_r b"
  have R_pos: "0 < R" and ov_pos: "0 < ov"
    using assms by (simp_all add: colliding_iff R_def ov_def)
  have unit: "hypot nx ny = 1"
    using contact_normal_unit [OF assms] by (simp add: hypot_def nx_def ny_def)
  have moved: "hypot (nx * c) (ny * c) = \<bar>c\<bar>" for c
    using hypot_scale [of nx c ny] unit by simp
  have "center_distance a (fst (separate_pair a b))
      = hypot (nx * (- (ov * (ball_r b / R)))) (ny * (- (ov * (ball_r b / R))))"
    by (simp add: separate_pair_fields center_distance_def nx_def ny_def ov_def R_def mult.assoc)
  also have "\<dots> = ov * \<bar>ball_r b\<bar> / R"
    using R_pos ov_pos by (simp only: moved) (simp add: abs_mult)
  finally have ma: "center_distance a (fst (separate_pair a b)) = ov * \<bar>ball_r b\<bar> / R" .
  have "center_distance b (snd (separate_pair a b))
      = hypot (nx * (ov * (ball_r a / R))) (ny * (ov * (ball_r a / R)))"
    by (simp add: separate_pair_fields center_distance_def nx_def ny_def ov_def R_def mult.assoc)
  also have "\<dots> = ov * \<bar>ball_r a\<bar> / R"
    using R_pos ov_pos by (simp only: moved) (simp add: abs_mult)
  finally have mb: "center_distance b (snd (separate_pair a b)) = ov * \<bar>ball_r a\<bar> / R" .
  show ?thesis
    using ma mb by (simp add: ov_def R_def)
qed

lemma larger_ball_moves_less:
  assumes "colliding a b" and "ball_r b \<le> ball_r a"
  shows "center_distance a (fst (separate_pair a b)) \<le> center_distance b (snd (separate_pair a b))"
proof -
  have R_pos: "0 < ball_r a + ball_r b" and ov_pos: "0 < ball_r a + ball_r b - center_distance a b"
    using assms(1) by (simp_all add: colliding_iff)
  have "\<bar>ball_r b\<bar> \<le> \<bar>ball_r a\<bar>"
    using R_pos assms(2) by linarith
  then have "(ball_r a + ball_r b - center_distance a b) * \<bar>ball_r b\<bar> / (ball_r a + ball_r b)
      \<le> (ball_r a + ball_r b - center_distance a b) * \<bar>ball_r a\<bar> / (ball_r a + ball_r b)"
    using R_pos ov_pos by (simp add: divide_le_cancel mult_left_mono)
  then show ?thesis
    using separate_pair_moves [OF assms(1)] by simp
qed

lemma example_pair_colliding:
  "colliding (example_ball 1 100 100 50 0 10) (example_ball 2 112 100 (- 30) 0 10)"
  by (simp add: colliding_def example_ball_def Let_def hypot_zero_right)

lemma example_pair_normal:
  "contact_normal (example_ball 1 100 100 50 0 10) (example_ball 2 112 100 (- 30) 0 10) = (1, 0)"
  by (simp add: contact_normal_def example_ball_def Let_def hypot_zero_right)

subsection \<open>Positional correction\<close>

text \<open>
  C6. For a pair that is resolved (centre distance above 0.0001 and below the sum of the
  radii), the positional correction moves ball \<open>a\<close> against the unit contact normal by
  \<open>overlap * r_b / (r_a + r_b)\<close> and ball \<open>b\<close> along it by \<open>overlap * r_a / (r_a + r_b)\<close>,
  so the ball with the larger radius moves no further than the other, and the centre
  distance after the correction, which is also the one after the whole of phase 1, is
  exactly the sum of the radii.
\<close>

theorem collision_separation_exact:
  assumes "colliding a b"
  shows "ball_x (fst (separate_pair a b))
           = ball_x a - fst (contact_normal a b) * (ball_r a + ball_r b - center_distance a b)
                          * (ball_r b / (ball_r a + ball_r b))
   \<and> ball_y (fst (separate_pair a b))
       = ball_y a - snd (contact_normal a b) * (ball_r a + ball_r b - center_distance a b)
                      * (ball_r b / (ball_r a + ball_r b))
   \<and> ball_x (snd (separate_pair a b))
       = ball_x b + fst (contact_normal a b) * (ball_r a + ball_r b - center_distance a b)
                      * (ball_r a / (ball_r a + ball_r b))
   \<and> ball_y (snd (separate_pair a b))
       = ball_y b + snd (contact_normal a b) * (ball_r a + ball_r b - center_distance a b)
                      * (ball_r a / (ball_r a + ball_r b))
   \<and> (fst (contact_normal a b))\<^sup>2 + (snd (contact_normal a b))\<^sup>2 = 1
   \<and> center_distance (fst (separate_pair a b)) (snd (separate_pair a b)) = ball_r a + ball_r b
   \<and> center_distance (fst (physical_response pc e a b)) (snd (physical_response pc e a b))
       = ball_r a + ball_r b
   \<and> (ball_r b \<le> ball_r a \<longrightarrow>
        center_distance a (fst (separate_pair a b)) \<le> center_distance b (snd (separate_pair a b)))"
  using separate_pair_distance [OF assms] physical_response_distance [OF assms]
    contact_normal_unit [OF assms] larger_ball_moves_less [OF assms]
  by (simp add: separate_pair_fields)

theorem collision_separation_exact_witness:
  "colliding (example_ball 1 100 100 50 0 20) (example_ball 2 112 100 (- 30) 0 10)
   \<and> ball_x (fst (separate_pair (example_ball 1 100 100 50 0 20)
                    (example_ball 2 112 100 (- 30) 0 10))) = 94
   \<and> ball_x (snd (separate_pair (example_ball 1 100 100 50 0 20)
                    (example_ball 2 112 100 (- 30) 0 10))) = 124
   \<and> center_distance
        (fst (separate_pair (example_ball 1 100 100 50 0 20) (example_ball 2 112 100 (- 30) 0 10)))
        (snd (separate_pair (example_ball 1 100 100 50 0 20) (example_ball 2 112 100 (- 30) 0 10)))
       = 30
   \<and> ball_r (example_ball 2 112 100 (- 30) 0 10) \<le> ball_r (example_ball 1 100 100 50 0 20)
   \<and> center_distance (example_ball 1 100 100 50 0 20)
        (fst (separate_pair (example_ball 1 100 100 50 0 20) (example_ball 2 112 100 (- 30) 0 10)))
       \<le> center_distance (example_ball 2 112 100 (- 30) 0 10)
        (snd (separate_pair (example_ball 1 100 100 50 0 20) (example_ball 2 112 100 (- 30) 0 10)))"
proof -
  have c: "colliding (example_ball 1 100 100 50 0 20) (example_ball 2 112 100 (- 30) 0 10)"
    by (simp add: colliding_def example_ball_def Let_def hypot_zero_right)
  have n: "contact_normal (example_ball 1 100 100 50 0 20) (example_ball 2 112 100 (- 30) 0 10)
      = (1, 0)"
    by (simp add: contact_normal_def example_ball_def Let_def hypot_zero_right)
  have d: "center_distance (example_ball 1 100 100 50 0 20) (example_ball 2 112 100 (- 30) 0 10)
      = 12"
    by (simp add: center_distance_def example_ball_def hypot_zero_right)
  have r: "ball_r (example_ball 2 112 100 (- 30) 0 10) \<le> ball_r (example_ball 1 100 100 50 0 20)"
    by (simp add: example_ball_def)
  show ?thesis
    using collision_separation_exact [OF c, of default_physicsConfig "''arcade''"] c r
    by (simp add: n d) (simp add: example_ball_def)
qed

subsection \<open>The arcadeSimple velocity response\<close>

text \<open>
  C5. With the \<open>arcadeSimple\<close> engine, for a pair that is resolved, the velocities handed
  to the \<open>onBallCollision\<close> handler (the result of phase 1) have the speeds the two balls
  had before the collision, and each is the ball's own velocity mirrored about the contact
  normal: no term of the other ball's velocity enters.
\<close>

theorem arcadeSimple_collision_keeps_speeds:
  assumes "colliding a b"
  shows "hypot (ball_vx (fst (physical_response pc ''arcadeSimple'' a b)))
               (ball_vy (fst (physical_response pc ''arcadeSimple'' a b)))
           = hypot (ball_vx a) (ball_vy a)
   \<and> hypot (ball_vx (snd (physical_response pc ''arcadeSimple'' a b)))
            (ball_vy (snd (physical_response pc ''arcadeSimple'' a b)))
           = hypot (ball_vx b) (ball_vy b)
   \<and> ball_vx (fst (physical_response pc ''arcadeSimple'' a b))
       = ball_vx a - 2 * (ball_vx a * fst (contact_normal a b)
                            + ball_vy a * snd (contact_normal a b)) * fst (contact_normal a b)
   \<and> ball_vy (fst (physical_response pc ''arcadeSimple'' a b))
       = ball_vy a - 2 * (ball_vx a * fst (contact_normal a b)
                            + ball_vy a * snd (contact_normal a b)) * snd (contact_normal a b)
   \<and> ball_vx (snd (physical_response pc ''arcadeSimple'' a b))
       = ball_vx b - 2 * (ball_vx b * fst (contact_normal a b)
                            + ball_vy b * snd (contact_normal a b)) * fst (contact_normal a b)
   \<and> ball_vy (snd (physical_response pc ''arcadeSimple'' a b))
       = ball_vy b - 2 * (ball_vx b * fst (contact_normal a b)
                            + ball_vy b * snd (contact_normal a b)) * snd (contact_normal a b)"
proof -
  note unit = contact_normal_unit [OF assms]
  have resp: "physical_response pc ''arcadeSimple'' a b
      = velocity_response pc ''arcadeSimple'' (fst (contact_normal a b)) (snd (contact_normal a b))
          (fst (separate_pair a b)) (snd (separate_pair a b))"
    by (simp add: physical_response_def split_beta)
  show ?thesis
    unfolding resp velocity_response_arcadeSimple [OF unit]
    using hypot_reflect [OF unit, of "ball_vx a" "ball_vy a"]
      hypot_reflect [OF unit, of "ball_vx b" "ball_vy b"]
    by (simp add: separate_pair_velocities)
qed

theorem arcadeSimple_collision_keeps_speeds_witness:
  "colliding (example_ball 1 100 100 50 0 10) (example_ball 2 112 100 (- 30) 0 10)
   \<and> hypot (ball_vx (fst (physical_response default_physicsConfig ''arcadeSimple''
                (example_ball 1 100 100 50 0 10) (example_ball 2 112 100 (- 30) 0 10))))
            (ball_vy (fst (physical_response default_physicsConfig ''arcadeSimple''
                (example_ball 1 100 100 50 0 10) (example_ball 2 112 100 (- 30) 0 10)))) = 50
   \<and> ball_vx (fst (physical_response default_physicsConfig ''arcadeSimple''
                (example_ball 1 100 100 50 0 10) (example_ball 2 112 100 (- 30) 0 10))) = - 50
   \<and> ball_vx (snd (physical_response default_physicsConfig ''arcadeSimple''
                (example_ball 1 100 100 50 0 10) (example_ball 2 112 100 (- 30) 0 10))) = 30"
  using arcadeSimple_collision_keeps_speeds [OF example_pair_colliding, of default_physicsConfig]
    example_pair_colliding
  by (simp add: example_pair_normal) (simp add: example_ball_def hypot_zero_right)

subsection \<open>The distance guard\<close>

text \<open>
  C8. For two balls of the array whose centre distance is at most 0.0001, coincident
  centres included, the pair is not resolved: the test that guards the resolution fails,
  so the code that divides by the distance is not entered; both balls come back unchanged,
  no \<open>onBallCollision\<close> handler is fired, the pair is not marked as processed, and the step
  of the loop for that pair leaves the whole collision state as it was.
\<close>

theorem epsilon_guard_no_collision:
  assumes "center_distance (cs_balls cs ! i) (cs_balls cs ! j) \<le> 0.0001"
  shows "\<not> colliding (cs_balls cs ! i) (cs_balls cs ! j)
   \<and> collide_pair pc e prog (cs_balls cs ! i) (cs_balls cs ! j)
       = \<lparr>pr_a = cs_balls cs ! i, pr_b = cs_balls cs ! j, pr_events = [], pr_processed = False\<rparr>
   \<and> collision_step pc e prog i cs j = cs"
proof -
  have guard: "\<not> colliding (cs_balls cs ! i) (cs_balls cs ! j)"
    using assms by (simp add: colliding_iff)
  have pair: "collide_pair pc e prog (cs_balls cs ! i) (cs_balls cs ! j)
       = \<lparr>pr_a = cs_balls cs ! i, pr_b = cs_balls cs ! j, pr_events = [], pr_processed = False\<rparr>"
    using assms by (simp add: collide_pair_def center_distance_def Let_def)
  have "collision_step pc e prog i cs j = cs"
    by (simp add: collision_step_def Let_def pair)
  with guard pair show ?thesis by simp
qed

theorem epsilon_guard_no_collision_witness:
  "center_distance
     (cs_balls \<lparr>cs_balls = [example_ball 1 100 100 50 0 10, example_ball 2 100 100 (- 30) 0 10],
                cs_processedPairs = [], cs_events = []\<rparr> ! 0)
     (cs_balls \<lparr>cs_balls = [example_ball 1 100 100 50 0 10, example_ball 2 100 100 (- 30) 0 10],
                cs_processedPairs = [], cs_events = []\<rparr> ! 1) \<le> 0.0001
   \<and> collision_step default_physicsConfig ''arcade''
        (Some \<lparr>onWallHit = None, onExit = None,
               onBallCollision = Some (\<lambda>a b. (a\<lparr>ball_alive := False\<rparr>, b))\<rparr>) 0
        \<lparr>cs_balls = [example_ball 1 100 100 50 0 10, example_ball 2 100 100 (- 30) 0 10],
          cs_processedPairs = [], cs_events = []\<rparr> 1
       = \<lparr>cs_balls = [example_ball 1 100 100 50 0 10, example_ball 2 100 100 (- 30) 0 10],
          cs_processedPairs = [], cs_events = []\<rparr>"
proof -
  have d: "center_distance
     (cs_balls \<lparr>cs_balls = [example_ball 1 100 100 50 0 10, example_ball 2 100 100 (- 30) 0 10],
                cs_processedPairs = [], cs_events = []\<rparr> ! 0)
     (cs_balls \<lparr>cs_balls = [example_ball 1 100 100 50 0 10, example_ball 2 100 100 (- 30) 0 10],
                cs_processedPairs = [], cs_events = []\<rparr> ! 1) \<le> 0.0001"
    by (simp add: center_distance_def example_ball_def hypot_zero_right)
  show ?thesis
    using epsilon_guard_no_collision [OF d, of default_physicsConfig "''arcade''"
        "Some \<lparr>onWallHit = None, onExit = None,
               onBallCollision = Some (\<lambda>a b. (a\<lparr>ball_alive := False\<rparr>, b))\<rparr>"] d
    by simp
qed

end
